theory Spec2Isabelle
  imports Complex_Main "HOL-Library.Word"
begin

section \<open>Data model\<close>

text \<open>
  The program of \<^verbatim>\<open>src/main.cpp\<close> is glue code around the PhysX SDK, SDL and a
  \<^verbatim>\<open>Graphics\<close> class. The functions of \<^verbatim>\<open>main.cpp\<close> are embedded below one by one,
  as functions on an explicit \<open>world\<close>: the six global handles, the engine objects they
  point to, the entity objects of the heap, and the trace of what was printed and drawn.
  A pointer is an address (\<open>nat\<close>) or \<open>None\<close> for \<^verbatim>\<open>nullptr\<close>; following a null pointer,
  or a pointer to a released engine object, is a \<open>fault\<close>. \<^verbatim>\<open>PxReal\<close> and \<^verbatim>\<open>float\<close> are
  modelled by \<open>real\<close>: no rounding is modelled.
\<close>

type_synonym handle = nat
type_synonym addr = nat

datatype fault = NullDeref | UseAfterRelease | DanglingEntity | OutOfRange

datatype vec3 = vec3 real real real
datatype quat = quat real real real real
datatype PxVec3 = PxVec3 real real real
datatype PxQuat = PxQuat real real real real

datatype PxTransform = PxTransform PxVec3 PxQuat

datatype PxFilterData = PxFilterData "32 word" "32 word" "32 word" "32 word"

text \<open>
  The kinds of engine object the program creates. Whether a creation call of the
  engine succeeds is not decided by the program: it is the parameter \<open>ok\<close> of the
  functions below (\<open>ok k\<close> holds when creating an object of kind \<open>k\<close> returns a non-null
  pointer).
\<close>

datatype kind = KFoundation | KProfileZoneManager | KPhysics | KDispatcher | KCooking
  | KMaterial | KScene | KRigidDynamic | KRigidStatic | KFixedJoint

datatype entity_kind = IsDynamic | IsStatic

record Entity =
  position :: vec3
  rotation :: quat
  scale :: vec3
  ekind :: entity_kind
  body :: "handle option"

record actor =
  dynamic :: bool
  globalPose :: PxTransform
  shapes :: "PxFilterData list"
  userData :: "addr option"
  mass :: real

record scene =
  gravity :: PxVec3
  cpuDispatcher :: "handle option"
  sceneActors :: "handle list"

datatype joint = FixedJoint "handle option" PxTransform "handle option" PxTransform bool

datatype Color = Color real real real

text \<open>
  What the program does to the outside, in order: the lines it prints, the joints it has
  the engine create (with the two body pointers passed), and the calls of the loop to
  the engine's stepping, to \<^verbatim>\<open>Graphics\<close> and to the platform. A box is drawn from the
  position, rotation and scale that \<^verbatim>\<open>getModelMatrix\<close> reads.
\<close>

datatype event = Cout string | Cerr string
  | JointCreate "handle option" "handle option"
  | Simulate real | FetchResults | Clear | DrawBox vec3 quat vec3 Color | Refresh
  | Usleep nat | GraphicsDeinit | SDLQuit

record world =
  gFoundation :: "handle option"
  gDispatcher :: "handle option"
  gCooking :: "handle option"
  gPhysics :: "handle option"
  gPhysicsMaterial :: "handle option"
  gPhysicsScene :: "handle option"
  live :: "handle set"
  fresh :: nat
  profileZoneManager :: "handle \<rightharpoonup> handle"
  scenes :: "handle \<rightharpoonup> scene"
  actors :: "handle \<rightharpoonup> actor"
  joints :: "handle \<rightharpoonup> joint"
  entities :: "addr \<rightharpoonup> Entity"
  freshEntity :: nat
  trace :: "event list"

text \<open>The globals as the program starts: every handle is \<^verbatim>\<open>nullptr\<close>, nothing exists.\<close>

definition initial_world :: world where
  "initial_world = \<lparr> gFoundation = None, gDispatcher = None, gCooking = None,
     gPhysics = None, gPhysicsMaterial = None, gPhysicsScene = None,
     live = {}, fresh = 0, profileZoneManager = Map.empty, scenes = Map.empty,
     actors = Map.empty, joints = Map.empty, entities = Map.empty, freshEntity = 0,
     trace = [] \<rparr>"

section \<open>The engine's object store\<close>

text \<open>
  Modelled from the spec: the PhysX SDK is not part of the repository. Its objects are
  modelled by what the spec says of the API: a creation call returns a new handle or
  null, \<^verbatim>\<open>release()\<close> ends the life of one object, and every member call follows the
  pointer it is made through.
\<close>

definition create :: "(kind \<Rightarrow> bool) \<Rightarrow> kind \<Rightarrow> world \<Rightarrow> handle option \<times> world" where
  "create ok k s =
     (if ok k then (Some (fresh s), s\<lparr>live := insert (fresh s) (live s), fresh := fresh s + 1\<rparr>)
      else (None, s))"

definition deref :: "world \<Rightarrow> handle option \<Rightarrow> fault + handle" where
  "deref s ptr =
     (case ptr of None \<Rightarrow> Inl NullDeref
      | Some h \<Rightarrow> if h \<in> live s then Inr h else Inl UseAfterRelease)"

definition release :: "handle \<Rightarrow> world \<Rightarrow> world" where
  "release h s = s\<lparr>live := live s - {h}\<rparr>"

definition say :: "event \<Rightarrow> world \<Rightarrow> world" where
  "say e s = s\<lparr>trace := trace s @ [e]\<rparr>"

section \<open>Faults\<close>

text \<open>
  A call that faults ends the run: \<open>andThen m f\<close> continues with \<open>f\<close> on the value of
  \<open>m\<close> unless \<open>m\<close> is a fault.
\<close>

definition andThen :: "fault + 'a \<Rightarrow> ('a \<Rightarrow> fault + 'b) \<Rightarrow> fault + 'b" where
  "andThen m f = (case m of Inl e \<Rightarrow> Inl e | Inr x \<Rightarrow> f x)"

section \<open>Physics session lifecycle\<close>

text \<open>
  \<^verbatim>\<open>initPhysics\<close> (main.cpp, lines 93 to 123). The foundation is passed on as
  \<^verbatim>\<open>*gFoundation\<close> and the physics instance is called through \<^verbatim>\<open>gPhysics->\<close>, so a
  failed creation of one of the two faults; the other creations are stored unchecked
  (a failed cooking stage is only reported on \<^verbatim>\<open>std::cout\<close>).
\<close>

definition initPhysics :: "(kind \<Rightarrow> bool) \<Rightarrow> world \<Rightarrow> fault + (bool \<times> world)" where
  "initPhysics ok s =
     (if gFoundation s \<noteq> None then Inr (False, s)
      else
        let (f, s1) = create ok KFoundation s;
            s1 = s1\<lparr>gFoundation := f\<rparr>;
            (pzm, s2) = create (\<lambda>k. True) KProfileZoneManager s1
        in andThen (deref s2 (gFoundation s2)) (\<lambda>fh.
        let (ph, s3) = create ok KPhysics s2;
            s3 = s3\<lparr>gPhysics := ph,
                    profileZoneManager :=
                      (case ph of None \<Rightarrow> profileZoneManager s3
                       | Some h \<Rightarrow> (profileZoneManager s3)(h := pzm))\<rparr>;
            (d, s4) = create ok KDispatcher s3;
            s4 = s4\<lparr>gDispatcher := d\<rparr>
        in andThen (deref s4 (gFoundation s4)) (\<lambda>fh1.
           andThen (deref s4 (gPhysics s4)) (\<lambda>ph1.
        let (c, s5) = create ok KCooking s4;
            s5 = s5\<lparr>gCooking := c\<rparr>;
            s6 = (if gCooking s5 = None then say (Cout ''PxCreateCooking failed!'') s5 else s5)
        in andThen (deref s6 (gPhysics s6)) (\<lambda>ph2.
        let (m, s7) = create ok KMaterial s6;
            s7 = s7\<lparr>gPhysicsMaterial := m\<rparr>
        in andThen (deref s7 (gPhysics s7)) (\<lambda>ph3.
        let sceneDesc = \<lparr> gravity = PxVec3 0 (- (981 / 100)) 0,
                           cpuDispatcher = gDispatcher s7, sceneActors = [] \<rparr>
        in andThen (deref s7 (gPhysics s7)) (\<lambda>ph4.
        let (sc, s8) = create ok KScene s7;
            s8 = s8\<lparr>gPhysicsScene := sc,
                    scenes := (case sc of None \<Rightarrow> scenes s8
                               | Some h \<Rightarrow> (scenes s8)(h \<mapsto> sceneDesc))\<rparr>
        in Inr (True, s8))))))))"

text \<open>
  \<^verbatim>\<open>deinitPhysics\<close> (main.cpp, lines 125 to 144): the releases in the order of the
  source, each through its pointer, then the four assignments of \<^verbatim>\<open>nullptr\<close> of lines
  140 to 143.
\<close>

definition deinitPhysics :: "world \<Rightarrow> fault + world" where
  "deinitPhysics s =
     (if gFoundation s = None then Inr s
      else
        andThen (deref s (gPhysicsScene s)) (\<lambda>sc.
        let s1 = release sc s
        in andThen (deref s1 (gDispatcher s1)) (\<lambda>d.
        let s2 = release d s1
        in andThen (deref s2 (gPhysics s2)) (\<lambda>ph.
        let profileZoneManager1 = profileZoneManager s2 ph
        in andThen (deref s2 (gPhysics s2)) (\<lambda>ph1.
        let s3 = release ph1 s2
        in andThen (deref s3 profileZoneManager1) (\<lambda>z.
        let s4 = release z s3
        in andThen (deref s4 (gCooking s4)) (\<lambda>c.
        let s5 = release c s4
        in andThen (deref s5 (gFoundation s5)) (\<lambda>f.
        let s6 = release f s5
        in Inr (s6\<lparr>gDispatcher := None, gPhysics := None, gCooking := None,
                   gFoundation := None\<rparr>)))))))))"

section \<open>Vectors, quaternions and rigid transforms\<close>

text \<open>The four conversions of main.cpp, lines 58 to 61, with the argument order of the source.\<close>

fun toPxVec3 :: "vec3 \<Rightarrow> PxVec3" where
  "toPxVec3 (vec3 x y z) = PxVec3 x y z"

fun toPxQuat :: "quat \<Rightarrow> PxQuat" where
  "toPxQuat (quat w x y z) = PxQuat x y z w"

fun toVec3 :: "PxVec3 \<Rightarrow> vec3" where
  "toVec3 (PxVec3 x y z) = vec3 x y z"

fun toQuat :: "PxQuat \<Rightarrow> quat" where
  "toQuat (PxQuat x y z w) = quat w x y z"

text \<open>
  Modelled from the spec: the transform algebra of the PhysX SDK (\<^verbatim>\<open>PxVec3\<close>, \<^verbatim>\<open>PxQuat\<close>,
  \<^verbatim>\<open>PxTransform\<close>) is not part of the repository. The spec speaks of the inverse and
  the product of rigid transforms and of the world-space point of a local anchor; they
  are the usual ones of a translation \<open>p\<close> and a rotation quaternion \<open>q = (x, y, z, w)\<close>:
  a transform maps the point \<open>v\<close> to \<open>rotate_q q v + p\<close>, and \<open>transform a b\<close> (the SDK's
  \<open>a * b\<close>) applies \<open>b\<close> first.
\<close>

fun vneg :: "PxVec3 \<Rightarrow> PxVec3" where
  "vneg (PxVec3 x y z) = PxVec3 (- x) (- y) (- z)"

fun vadd :: "PxVec3 \<Rightarrow> PxVec3 \<Rightarrow> PxVec3" where
  "vadd (PxVec3 x y z) (PxVec3 a b c) = PxVec3 (x + a) (y + b) (z + c)"

definition PxIdentity :: PxQuat where
  "PxIdentity = PxQuat 0 0 0 1"

fun getConjugate :: "PxQuat \<Rightarrow> PxQuat" where
  "getConjugate (PxQuat x y z w) = PxQuat (- x) (- y) (- z) w"

fun qmul :: "PxQuat \<Rightarrow> PxQuat \<Rightarrow> PxQuat" where
  "qmul (PxQuat x y z w) (PxQuat qx qy qz qw) =
     PxQuat (w * qx + qw * x + y * qz - qy * z)
            (w * qy + qw * y + z * qx - qz * x)
            (w * qz + qw * z + x * qy - qx * y)
            (w * qw - x * qx - y * qy - z * qz)"

fun rotate_q :: "PxQuat \<Rightarrow> PxVec3 \<Rightarrow> PxVec3" where
  "rotate_q (PxQuat x y z w) (PxVec3 a b c) =
     (let vx = 2 * a; vy = 2 * b; vz = 2 * c;
          w2 = w * w - 1 / 2;
          dot2 = x * vx + y * vy + z * vz
      in PxVec3 (vx * w2 + (y * vz - z * vy) * w + x * dot2)
                (vy * w2 + (z * vx - x * vz) * w + y * dot2)
                (vz * w2 + (x * vy - y * vx) * w + z * dot2))"

fun getInverse :: "PxTransform \<Rightarrow> PxTransform" where
  "getInverse (PxTransform p q) =
     PxTransform (rotate_q (getConjugate q) (vneg p)) (getConjugate q)"

fun transform :: "PxTransform \<Rightarrow> PxTransform \<Rightarrow> PxTransform" where
  "transform (PxTransform p q) (PxTransform sp sq) =
     PxTransform (vadd (rotate_q q sp) p) (qmul q sq)"

fun transformPoint :: "PxTransform \<Rightarrow> PxVec3 \<Rightarrow> PxVec3" where
  "transformPoint (PxTransform p q) v = vadd (rotate_q q v) p"

text \<open>A valid pose has a unit quaternion.\<close>

fun isValidPose :: "PxTransform \<Rightarrow> bool" where
  "isValidPose (PxTransform p (PxQuat x y z w)) \<longleftrightarrow> x * x + y * y + z * z + w * w = 1"

section \<open>The engine's actors and joints\<close>

text \<open>
  Modelled from the spec: what the engine does inside its calls is not part of the
  repository. The effects of the engine that the program cannot see in its own code
  are parameters here: which creations succeed (\<open>succeeds\<close>), what creating a
  fixed joint does to the filter data of the shapes of the two bodies
  (\<open>jointCreateFilter\<close>), what setting the collision flag of a joint does to them
  (\<open>collisionFlagFilter\<close>), each as a function of the body, the shape index and the data
  before, and what a simulation step does to the actors (\<open>simulateStep\<close>). A pose written
  with \<^verbatim>\<open>setGlobalPose\<close> is the pose \<^verbatim>\<open>getGlobalPose\<close> reads.
\<close>

record engine =
  succeeds :: "kind \<Rightarrow> bool"
  jointCreateFilter :: "handle \<Rightarrow> nat \<Rightarrow> PxFilterData \<Rightarrow> PxFilterData"
  collisionFlagFilter :: "handle \<Rightarrow> nat \<Rightarrow> PxFilterData \<Rightarrow> PxFilterData"
  simulateStep :: "(handle \<rightharpoonup> actor) \<Rightarrow> (handle \<rightharpoonup> actor)"

definition derefActor :: "world \<Rightarrow> handle option \<Rightarrow> fault + (handle \<times> actor)" where
  "derefActor s ptr =
     andThen (deref s ptr) (\<lambda>h.
       case actors s h of None \<Rightarrow> Inl UseAfterRelease | Some a \<Rightarrow> Inr (h, a))"

definition derefEntity :: "world \<Rightarrow> addr \<Rightarrow> fault + Entity" where
  "derefEntity s e = (case entities s e of None \<Rightarrow> Inl DanglingEntity | Some ent \<Rightarrow> Inr ent)"

definition refilter :: "(handle \<Rightarrow> nat \<Rightarrow> PxFilterData \<Rightarrow> PxFilterData) \<Rightarrow> handle \<Rightarrow> actor \<Rightarrow> actor" where
  "refilter f h a = a\<lparr>shapes := map (\<lambda>i. f h i (shapes a ! i)) [0..<length (shapes a)]\<rparr>"

definition refilterBodies ::
  "(handle \<Rightarrow> nat \<Rightarrow> PxFilterData \<Rightarrow> PxFilterData) \<Rightarrow> handle option \<Rightarrow> handle option \<Rightarrow> world \<Rightarrow> world" where
  "refilterBodies f b0 b1 s =
     s\<lparr>actors := (\<lambda>h. if Some h = b0 \<or> Some h = b1
                        then map_option (refilter f h) (actors s h) else actors s h)\<rparr>"

definition PxFixedJointCreate ::
  "engine \<Rightarrow> handle option \<Rightarrow> PxTransform \<Rightarrow> handle option \<Rightarrow> PxTransform \<Rightarrow> world
     \<Rightarrow> fault + (handle option \<times> world)" where
  "PxFixedJointCreate eng actor0 frame0 actor1 frame1 s =
     andThen (deref s (gPhysics s)) (\<lambda>ph.
       let (j, s1) = create (succeeds eng) KFixedJoint s;
           s2 = refilterBodies (jointCreateFilter eng) actor0 actor1 s1;
           s3 = say (JointCreate actor0 actor1) s2
       in Inr (j, (case j of None \<Rightarrow> s3
                   | Some h \<Rightarrow> s3\<lparr>joints := (joints s3)(h \<mapsto> FixedJoint actor0 frame0 actor1 frame1 True)\<rparr>)))"

definition setCollisionEnabled :: "engine \<Rightarrow> handle option \<Rightarrow> bool \<Rightarrow> world \<Rightarrow> fault + world" where
  "setCollisionEnabled eng jptr v s =
     andThen (deref s jptr) (\<lambda>j.
       case joints s j of None \<Rightarrow> Inl UseAfterRelease
       | Some (FixedJoint actor0 frame0 actor1 frame1 c) \<Rightarrow>
           Inr (refilterBodies (collisionFlagFilter eng) actor0 actor1
                  (s\<lparr>joints := (joints s)(j \<mapsto> FixedJoint actor0 frame0 actor1 frame1 v)\<rparr>)))"

definition getGlobalPose :: "handle option \<Rightarrow> world \<Rightarrow> fault + PxTransform" where
  "getGlobalPose ptr s = andThen (derefActor s ptr) (\<lambda>(h, a). Inr (globalPose a))"

definition setGlobalPose :: "handle option \<Rightarrow> PxTransform \<Rightarrow> world \<Rightarrow> fault + world" where
  "setGlobalPose ptr pose s =
     andThen (derefActor s ptr) (\<lambda>(h, a).
       Inr (s\<lparr>actors := (actors s)(h \<mapsto> a\<lparr>globalPose := pose\<rparr>)\<rparr>))"

section \<open>Entity factory\<close>

text \<open>
  \<^verbatim>\<open>new DynamicEntity()\<close> and \<^verbatim>\<open>new StaticEntity()\<close>: a new object at a new address, with
  the member initialisers of lines 30 to 32 and a null body.
\<close>

definition newEntity :: "entity_kind \<Rightarrow> world \<Rightarrow> addr \<times> world" where
  "newEntity k s =
     (freshEntity s,
      s\<lparr>entities := (entities s)(freshEntity s \<mapsto>
            \<lparr> position = vec3 1 1 1, rotation = quat 0 0 0 1, scale = vec3 1 1 1,
              ekind = k, body = None \<rparr>),
        freshEntity := freshEntity s + 1\<rparr>)"

fun vscale :: "vec3 \<Rightarrow> real \<Rightarrow> vec3" where
  "vscale (vec3 x y z) k = vec3 (x * k) (y * k) (z * k)"

text \<open>
  Modelled from the spec: \<^verbatim>\<open>createRigidDynamic\<close>, \<^verbatim>\<open>createRigidStatic\<close>, \<^verbatim>\<open>createShape\<close>,
  \<^verbatim>\<open>updateMassAndInertia\<close>, \<^verbatim>\<open>setMass\<close> and \<^verbatim>\<open>addActor\<close> of the engine. A new actor has the
  given pose, no shape and a null back-reference; a new shape has the filter data
  \<^verbatim>\<open>PxFilterData()\<close>, four zero words; the mass computed from a density is the density
  times the volume of the box.
\<close>

definition createRigid :: "engine \<Rightarrow> bool \<Rightarrow> PxTransform \<Rightarrow> world \<Rightarrow> fault + (handle option \<times> world)" where
  "createRigid eng dyn pose s =
     andThen (deref s (gPhysics s)) (\<lambda>ph.
       let (b, s1) = create (succeeds eng) (if dyn then KRigidDynamic else KRigidStatic) s
       in Inr (b, (case b of None \<Rightarrow> s1
                   | Some h \<Rightarrow> s1\<lparr>actors := (actors s1)(h \<mapsto>
                       \<lparr> dynamic = dyn, globalPose = pose, shapes = [], userData = None,
                         mass = 0 \<rparr>)\<rparr>)))"

definition createShape :: "handle option \<Rightarrow> world \<Rightarrow> fault + world" where
  "createShape ptr s =
     andThen (derefActor s ptr) (\<lambda>(h, a).
     andThen (deref s (gPhysicsMaterial s)) (\<lambda>m.
       Inr (s\<lparr>actors := (actors s)(h \<mapsto> a\<lparr>shapes := shapes a @ [PxFilterData 0 0 0 0]\<rparr>)\<rparr>)))"

definition addActor :: "handle option \<Rightarrow> world \<Rightarrow> fault + world" where
  "addActor ptr s =
     andThen (deref s (gPhysicsScene s)) (\<lambda>sc.
     andThen (derefActor s ptr) (\<lambda>(h, a).
       case scenes s sc of None \<Rightarrow> Inl UseAfterRelease
       | Some d \<Rightarrow> Inr (s\<lparr>scenes := (scenes s)(sc \<mapsto> d\<lparr>sceneActors := sceneActors d @ [h]\<rparr>)\<rparr>)))"

definition setBody :: "addr \<Rightarrow> handle option \<Rightarrow> world \<Rightarrow> world" where
  "setBody e b s = s\<lparr>entities := (\<lambda>x. if x = e then map_option (\<lambda>ent. ent\<lparr>body := b\<rparr>) (entities s x) else entities s x)\<rparr>"

text \<open>\<^verbatim>\<open>addEntityBox\<close> (main.cpp, lines 146 to 164); the result is the address of the entity.\<close>

definition addEntityBox :: "engine \<Rightarrow> real \<Rightarrow> vec3 \<Rightarrow> vec3 \<Rightarrow> world \<Rightarrow> fault + (addr \<times> world)" where
  "addEntityBox eng m halfsize pos s =
     (let (e, s1) = newEntity IsDynamic s;
          s2 = s1\<lparr>entities := (\<lambda>x. if x = e
                 then map_option (\<lambda>ent. ent\<lparr>scale := vscale halfsize 2, position := pos\<rparr>) (entities s1 x)
                 else entities s1 x)\<rparr>;
          pxtr = PxTransform (toPxVec3 pos) PxIdentity
      in andThen (createRigid eng True pxtr s2) (\<lambda>(b, s3).
         let s4 = setBody e b s3
         in andThen (createShape b s4) (\<lambda>s5.
            andThen (derefActor s5 b) (\<lambda>(h, a).
         let s6 = s5\<lparr>actors := (actors s5)(h \<mapsto> a\<lparr>userData := Some e\<rparr>)\<rparr>
         in andThen (derefActor s6 b) (\<lambda>(h1, a1).
         let s7 = (case halfsize of vec3 hx hy hz \<Rightarrow>
                     s6\<lparr>actors := (actors s6)(h1 \<mapsto> a1\<lparr>mass := 10 * (8 * hx * hy * hz)\<rparr>)\<rparr>)
         in andThen (derefActor s7 b) (\<lambda>(h2, a2).
         let s8 = s7\<lparr>actors := (actors s7)(h2 \<mapsto> a2\<lparr>mass := m\<rparr>)\<rparr>
         in andThen (addActor b s8) (\<lambda>s9. Inr (e, s9))))))))"

text \<open>\<^verbatim>\<open>initGround\<close> (main.cpp, lines 189 to 202).\<close>

definition initGround :: "engine \<Rightarrow> vec3 \<Rightarrow> vec3 \<Rightarrow> world \<Rightarrow> fault + (addr \<times> world)" where
  "initGround eng halfsize pos s =
     (let (e, s1) = newEntity IsStatic s;
          s2 = s1\<lparr>entities := (\<lambda>x. if x = e
                 then map_option (\<lambda>ent. ent\<lparr>scale := vscale halfsize 2, position := pos\<rparr>) (entities s1 x)
                 else entities s1 x)\<rparr>;
          pxtr = PxTransform (toPxVec3 pos) PxIdentity
      in andThen (createRigid eng False pxtr s2) (\<lambda>(b, s3).
         let s4 = setBody e b s3
         in andThen (createShape b s4) (\<lambda>s5.
            andThen (addActor b s5) (\<lambda>s6. Inr (e, s6)))))"

section \<open>State synchronisation\<close>

text \<open>
  \<^verbatim>\<open>updateStates\<close> (main.cpp, lines 166 to 186). The engine returns the actors of the
  scene that are \<^verbatim>\<open>eRIGID_DYNAMIC\<close>, in the order of the scene. The back-reference is a
  \<^verbatim>\<open>void*\<close> cast to \<^verbatim>\<open>DynamicEntity*\<close>: the two assignments go to whatever entity object
  is at that address.
\<close>

definition isDynamicActor :: "world \<Rightarrow> handle \<Rightarrow> bool" where
  "isDynamicActor s h = (case actors s h of None \<Rightarrow> False | Some a \<Rightarrow> dynamic a)"

definition getActors :: "world \<Rightarrow> scene \<Rightarrow> handle list" where
  "getActors s d = filter (isDynamicActor s) (sceneActors d)"

fun updateStates_loop :: "handle list \<Rightarrow> world \<Rightarrow> fault + world" where
  "updateStates_loop [] s = Inr s"
| "updateStates_loop (actor1 # rest) s =
     andThen (getGlobalPose (Some actor1) s) (\<lambda>localTm.
     andThen (derefActor s (Some actor1)) (\<lambda>(h, a).
       case localTm of PxTransform p q \<Rightarrow>
         (case userData a of None \<Rightarrow> Inl NullDeref
          | Some e \<Rightarrow>
              andThen (derefEntity s e) (\<lambda>ent.
                updateStates_loop rest
                  (s\<lparr>entities := (entities s)(e \<mapsto> ent\<lparr>position := toVec3 p, rotation := toQuat q\<rparr>)\<rparr>)))))"

definition updateStates :: "world \<Rightarrow> fault + world" where
  "updateStates s =
     andThen (deref s (gPhysicsScene s)) (\<lambda>sc.
       case scenes s sc of None \<Rightarrow> Inl UseAfterRelease
       | Some d \<Rightarrow>
           let nbActors = length (getActors s d)
           in if nbActors \<noteq> 0 then updateStates_loop (getActors s d) s else Inr s)"

text \<open>
  Three notions used to state what \<^verbatim>\<open>updateStates\<close> does: the actors it visits, in
  order; when an entity shows the pose of an actor; and when the back-reference of an
  actor is in order, that is, it points to a \<^verbatim>\<open>DynamicEntity\<close> whose body is this actor,
  as \<^verbatim>\<open>addEntityBox\<close> sets it up.
\<close>

definition dynamicActors :: "world \<Rightarrow> handle list" where
  "dynamicActors s =
     (case gPhysicsScene s of None \<Rightarrow> []
      | Some sc \<Rightarrow> (case scenes s sc of None \<Rightarrow> [] | Some d \<Rightarrow> getActors s d))"

definition synced :: "actor \<Rightarrow> Entity \<Rightarrow> bool" where
  "synced a ent =
     (case globalPose a of PxTransform p q \<Rightarrow> position ent = toVec3 p \<and> rotation ent = toQuat q)"

definition backrefOk :: "world \<Rightarrow> handle \<Rightarrow> bool" where
  "backrefOk s h =
     (case actors s h of None \<Rightarrow> False
      | Some a \<Rightarrow>
          (case userData a of None \<Rightarrow> False
           | Some e \<Rightarrow>
               (case entities s e of None \<Rightarrow> False
                | Some ent \<Rightarrow> ekind ent = IsDynamic \<and> body ent = Some h)))"

text \<open>
  What \<^verbatim>\<open>updateStates\<close> leaves at an address after visiting the actors \<open>hs\<close>, when the
  back-references are in order: the entity with the pose of its body copied in, if its
  body is a visited actor that points back to it, and the entity as it was otherwise.
\<close>

definition syncEntity :: "world \<Rightarrow> handle list \<Rightarrow> addr \<Rightarrow> Entity option" where
  "syncEntity s hs e =
     (case entities s e of None \<Rightarrow> None
      | Some ent \<Rightarrow>
          (case body ent of None \<Rightarrow> Some ent
           | Some h \<Rightarrow>
               (case actors s h of None \<Rightarrow> Some ent
                | Some a \<Rightarrow>
                    if h \<in> set hs \<and> userData a = Some e
                    then (case globalPose a of PxTransform p q \<Rightarrow>
                            Some (ent\<lparr>position := toVec3 p, rotation := toQuat q\<rparr>))
                    else Some ent)))"

section \<open>Filter data helpers and joint creation\<close>

text \<open>
  \<^verbatim>\<open>getFilterData\<close> and \<^verbatim>\<open>setFilterData\<close> (main.cpp, lines 207 to 231), on the entity
  at an address. \<^verbatim>\<open>setFilterData\<close> reads \<^verbatim>\<open>filterData[i]\<close> for every shape index \<open>i\<close>:
  a vector shorter than the number of shapes is read out of range.
\<close>

definition getFilterData :: "addr \<Rightarrow> world \<Rightarrow> fault + PxFilterData list" where
  "getFilterData entity s =
     andThen (derefEntity s entity) (\<lambda>ent.
     andThen (derefActor s (body ent)) (\<lambda>(dyn, a).
       Inr (map (\<lambda>i. shapes a ! i) [0..<length (shapes a)])))"

definition setFilterData :: "addr \<Rightarrow> PxFilterData list \<Rightarrow> world \<Rightarrow> fault + world" where
  "setFilterData entity filterData s =
     andThen (derefEntity s entity) (\<lambda>ent.
     andThen (derefActor s (body ent)) (\<lambda>(dyn, a).
       if length filterData < length (shapes a) then Inl OutOfRange
       else Inr (s\<lparr>actors := (actors s)(dyn \<mapsto>
                   a\<lparr>shapes := map (\<lambda>i. filterData ! i) [0..<length (shapes a)]\<rparr>)\<rparr>)))"

text \<open>\<^verbatim>\<open>printBinary\<close> and \<^verbatim>\<open>debugDisplayFilterData\<close> (main.cpp, lines 63 to 90): bit 0 first.\<close>

definition printBinary :: "32 word \<Rightarrow> string" where
  "printBinary w = map (\<lambda>i. if bit w i then CHR ''1'' else CHR ''0'') [0..<32]"

fun filterDataLine :: "PxFilterData \<Rightarrow> event" where
  "filterDataLine (PxFilterData w0 w1 w2 w3) =
     Cout (''FilterData: '' @ printBinary w0 @ '', '' @ printBinary w1 @ '', ''
            @ printBinary w2 @ '', '' @ printBinary w3)"

text \<open>The lines that \<^verbatim>\<open>debugDisplayFilterData\<close> prints for shapes with the filter data \<open>fd\<close>.\<close>

definition displayLines :: "PxFilterData list \<Rightarrow> event list" where
  "displayLines fd = Cout ''debugDisplayFilterData'' # map filterDataLine fd"

definition debugDisplayFilterData :: "addr \<Rightarrow> world \<Rightarrow> fault + world" where
  "debugDisplayFilterData entity s =
     andThen (derefEntity s entity) (\<lambda>ent.
     andThen (derefActor s (body ent)) (\<lambda>(dyn, a).
       Inr (s\<lparr>trace := trace s @ displayLines (shapes a)\<rparr>)))"

text \<open>
  \<^verbatim>\<open>addFixedJoint\<close> (main.cpp, lines 235 to 267). \<^verbatim>\<open>entityA\<close> and \<^verbatim>\<open>entityB\<close> are C++
  references: here the addresses of the two entities, which may be the same address.
\<close>

definition addFixedJoint :: "engine \<Rightarrow> addr \<Rightarrow> vec3 \<Rightarrow> addr \<Rightarrow> vec3 \<Rightarrow> bool \<Rightarrow> world \<Rightarrow> fault + world" where
  "addFixedJoint eng entityA posA entityB posB useWorkaround s =
     andThen (derefEntity s entityB) (\<lambda>entB.
     andThen (getGlobalPose (body entB) s) (\<lambda>otherPXTr.
     let meAnchor = PxTransform (toPxVec3 posA) PxIdentity;
         otherAnchor = PxTransform (toPxVec3 posB) PxIdentity;
         newMeTr = transform (transform (getInverse meAnchor) otherPXTr) otherAnchor
     in andThen (derefEntity s entityA) (\<lambda>entA.
        andThen (setGlobalPose (body entA) newMeTr s) (\<lambda>s1.
        andThen (PxFixedJointCreate eng (body entB) otherAnchor (body entA) meAnchor s1) (\<lambda>(joint, s2).
          if useWorkaround then
            andThen (getFilterData entityA s2) (\<lambda>fd.
            andThen (setCollisionEnabled eng joint False s2) (\<lambda>s3.
              setFilterData entityA fd s3))
          else setCollisionEnabled eng joint False s2)))))"

text \<open>
  Two readings used to state what \<^verbatim>\<open>addFixedJoint\<close> does: the world pose of the body
  of an entity (\<^verbatim>\<open>entity.body->getGlobalPose()\<close>), and the world-space point of a local
  anchor offset on that body.
\<close>

definition bodyPose :: "addr \<Rightarrow> world \<Rightarrow> fault + PxTransform" where
  "bodyPose e s = andThen (derefEntity s e) (\<lambda>ent. getGlobalPose (body ent) s)"

definition worldAnchor :: "addr \<Rightarrow> vec3 \<Rightarrow> world \<Rightarrow> fault + PxVec3" where
  "worldAnchor e pos s =
     andThen (bodyPose e s) (\<lambda>pose. Inr (transformPoint pose (toPxVec3 pos)))"

definition bodyOf :: "world \<Rightarrow> addr \<Rightarrow> handle option" where
  "bodyOf s e = (case entities s e of None \<Rightarrow> None | Some ent \<Rightarrow> body ent)"

text \<open>The pose computed in line 253, as a function of the two offsets and of the pose of B.\<close>

definition newMeTr :: "vec3 \<Rightarrow> PxTransform \<Rightarrow> vec3 \<Rightarrow> PxTransform" where
  "newMeTr posA otherPXTr posB =
     transform (transform (getInverse (PxTransform (toPxVec3 posA) PxIdentity)) otherPXTr)
       (PxTransform (toPxVec3 posB) PxIdentity)"

section \<open>The program\<close>

text \<open>
  What \<^verbatim>\<open>main\<close> reads from the outside: whether \<^verbatim>\<open>SDL_Init\<close> and \<^verbatim>\<open>graphics.init\<close>
  succeed, and at each turn of the loop the event that \<^verbatim>\<open>ev\<close> holds after
  \<^verbatim>\<open>SDL_PollEvent\<close> and the clock reading \<^verbatim>\<open>t1 - t0\<close> in seconds. A run is given by
  the list of these pairs; when the list ends before a quit event, the loop has not
  returned.
\<close>

datatype SDL_Event = SDL_QUIT | SDL_KEYDOWN int | SDL_OTHER

definition SDLK_ESCAPE :: int where
  "SDLK_ESCAPE = 27"

definition quitRequested :: "SDL_Event \<Rightarrow> bool" where
  "quitRequested ev =
     (case ev of SDL_QUIT \<Rightarrow> True | SDL_KEYDOWN key \<Rightarrow> key = SDLK_ESCAPE | SDL_OTHER \<Rightarrow> False)"

definition simulateAndFetch :: "engine \<Rightarrow> world \<Rightarrow> fault + world" where
  "simulateAndFetch eng s =
     andThen (deref s (gPhysicsScene s)) (\<lambda>sc.
       let s1 = (say (Simulate (1 / 60)) s)\<lparr>actors := simulateStep eng (actors s)\<rparr>
       in andThen (deref s1 (gPhysicsScene s1)) (\<lambda>sc1. Inr (say FetchResults s1)))"

definition drawBox :: "addr \<Rightarrow> Color \<Rightarrow> world \<Rightarrow> fault + world" where
  "drawBox e c s =
     andThen (derefEntity s e) (\<lambda>ent. Inr (say (DrawBox (position ent) (rotation ent) (scale ent) c) s))"

text \<open>Lines 304 to 314: the trigger, with the value of \<^verbatim>\<open>createJoint\<close> after it.\<close>

definition jointTrigger :: "engine \<Rightarrow> addr \<Rightarrow> addr \<Rightarrow> real \<Rightarrow> bool \<Rightarrow> world \<Rightarrow> fault + (bool \<times> world)" where
  "jointTrigger eng A B t createJoint s =
     (if \<not> createJoint \<and> t > 3 then
        andThen (debugDisplayFilterData A s) (\<lambda>s1.
        andThen (debugDisplayFilterData B s1) (\<lambda>s2.
        andThen (addFixedJoint eng A (vec3 0 0 0) B (vec3 0 0 0) False s2) (\<lambda>s3.
        andThen (debugDisplayFilterData A s3) (\<lambda>s4.
        andThen (debugDisplayFilterData B s4) (\<lambda>s5. Inr (True, s5))))))
      else Inr (createJoint, s))"

text \<open>Lines 316 to 329: the step, the synchronisation and the frame.\<close>

definition stepAndDraw :: "engine \<Rightarrow> addr \<Rightarrow> addr \<Rightarrow> addr \<Rightarrow> addr \<Rightarrow> world \<Rightarrow> fault + world" where
  "stepAndDraw eng ground A B C s =
     andThen (simulateAndFetch eng s) (\<lambda>s1.
     andThen (updateStates s1) (\<lambda>s2.
     andThen (drawBox ground (Color (2 / 10) (2 / 10) 1) (say Clear s2)) (\<lambda>s3.
     andThen (drawBox A (Color (2 / 10) 1 (2 / 10)) s3) (\<lambda>s4.
     andThen (drawBox B (Color 1 (2 / 10) (2 / 10)) s4) (\<lambda>s5.
     andThen (drawBox C (Color 1 (2 / 10) (2 / 10)) s5) (\<lambda>s6.
       Inr (say (Usleep 1000) (say Refresh s6))))))))"

text \<open>
  The loop of lines 297 to 330. The result is \<open>True\<close> with the world at the
  \<^verbatim>\<open>break\<close>, or \<open>False\<close> with the world reached when the given turns are used up.
\<close>

fun mainLoop ::
  "engine \<Rightarrow> addr \<Rightarrow> addr \<Rightarrow> addr \<Rightarrow> addr \<Rightarrow> (SDL_Event \<times> real) list \<Rightarrow> bool \<Rightarrow> world
     \<Rightarrow> fault + (bool \<times> world)" where
  "mainLoop eng ground A B C [] createJoint s = Inr (False, s)"
| "mainLoop eng ground A B C ((ev, t) # turns) createJoint s =
     (if quitRequested ev then Inr (True, s)
      else
        andThen (jointTrigger eng A B t createJoint s) (\<lambda>(createJoint1, s1).
        andThen (stepAndDraw eng ground A B C s1) (\<lambda>s2.
          mainLoop eng ground A B C turns createJoint1 s2)))"

text \<open>Lines 285 to 293: the ground, the boxes C and B joined, and the box A.\<close>

definition setupScene :: "engine \<Rightarrow> world \<Rightarrow> fault + ((addr \<times> addr \<times> addr \<times> addr) \<times> world)" where
  "setupScene eng s =
     andThen (initGround eng (vec3 90 (1 / 2) 90) (vec3 0 0 0) s) (\<lambda>(ground, s1).
     andThen (addEntityBox eng 1000 (vec3 8 (1 / 4) (3 / 2)) (vec3 0 2 0) s1) (\<lambda>(C, s2).
     andThen (addEntityBox eng 1000 (vec3 8 (1 / 4) (3 / 2)) (vec3 0 4 0) s2) (\<lambda>(B, s3).
     andThen (addFixedJoint eng C (vec3 0 1 0) B (vec3 0 (- 1) 0) False s3) (\<lambda>s4.
     andThen (addEntityBox eng 50 (vec3 (1 / 2) (1 / 2) (1 / 2)) (vec3 0 5 0) s4) (\<lambda>(A, s5).
       Inr ((ground, A, B, C), s5))))))"

text \<open>
  \<^verbatim>\<open>main\<close> (lines 269 to 338) ends with an exit code, with a fault, or has not returned
  within the given turns. \<open>main_from\<close> is its body run from any value of the globals;
  the process starts it from \<open>initial_world\<close>.
\<close>

datatype outcome = Exit int world | Crash fault | Running world

definition main_from ::
  "engine \<Rightarrow> bool \<Rightarrow> bool \<Rightarrow> (SDL_Event \<times> real) list \<Rightarrow> world \<Rightarrow> outcome" where
  "main_from eng sdlInitOk graphicsInitOk turns s =
     (if \<not> sdlInitOk then Exit 1 (say (Cerr ''failed to load SDL. (everything)'') s)
      else if \<not> graphicsInitOk then Exit 1 s
      else
        case initPhysics (succeeds eng) s of
          Inl e \<Rightarrow> Crash e
        | Inr (False, s1) \<Rightarrow> Exit 0 s1
        | Inr (True, s1) \<Rightarrow>
            (case setupScene eng s1 of
               Inl e \<Rightarrow> Crash e
             | Inr ((ground, A, B, C), s2) \<Rightarrow>
                 (case mainLoop eng ground A B C turns False s2 of
                    Inl e \<Rightarrow> Crash e
                  | Inr (False, s3) \<Rightarrow> Running s3
                  | Inr (True, s3) \<Rightarrow>
                      (case deinitPhysics (say GraphicsDeinit s3) of
                         Inl e \<Rightarrow> Crash e
                       | Inr s4 \<Rightarrow> Exit 0 (say SDLQuit s4)))))"

definition main :: "engine \<Rightarrow> bool \<Rightarrow> bool \<Rightarrow> (SDL_Event \<times> real) list \<Rightarrow> outcome" where
  "main eng sdlInitOk graphicsInitOk turns = main_from eng sdlInitOk graphicsInitOk turns initial_world"

text \<open>
  Readings of a run of the loop: the joint creations in a trace, and the turns whose
  body runs, which are the turns before the first quit event.
\<close>

fun isJointCreate :: "event \<Rightarrow> bool" where
  "isJointCreate (JointCreate a b) = True"
| "isJointCreate e = False"

definition jointCreations :: "event list \<Rightarrow> nat" where
  "jointCreations tr = length (filter isJointCreate tr)"

definition executedTurns :: "(SDL_Event \<times> real) list \<Rightarrow> (SDL_Event \<times> real) list" where
  "executedTurns turns = takeWhile (\<lambda>(ev, t). \<not> quitRequested ev) turns"

section \<open>Example worlds\<close>

text \<open>
  The session after \<^verbatim>\<open>initPhysics\<close> from the initial globals when every creation
  succeeds (the foundation is object 0, the profile zone manager 1, the physics
  instance 2, the dispatcher 3, the cooking stage 4, the material 5, the scene 6),
  and the session after \<^verbatim>\<open>deinitPhysics\<close> from there.
\<close>

definition sessionUp :: world where
  "sessionUp = \<lparr> gFoundation = Some 0, gDispatcher = Some 3, gCooking = Some 4,
     gPhysics = Some 2, gPhysicsMaterial = Some 5, gPhysicsScene = Some 6,
     live = {0, 1, 2, 3, 4, 5, 6}, fresh = 7, profileZoneManager = [2 \<mapsto> 1],
     scenes = [6 \<mapsto> \<lparr> gravity = PxVec3 0 (- (981 / 100)) 0, cpuDispatcher = Some 3,
                       sceneActors = [] \<rparr>],
     actors = Map.empty, joints = Map.empty, entities = Map.empty, freshEntity = 0,
     trace = [] \<rparr>"

definition sessionDown :: world where
  "sessionDown = sessionUp \<lparr> gFoundation := None, gDispatcher := None, gCooking := None,
     gPhysics := None, live := {5} \<rparr>"

text \<open>
  Two boxes in the scene of \<open>sessionUp\<close>: entity 0 with body 7 at \<open>(0, 2, 0)\<close>, not
  rotated, and entity 1 with body 8 at \<open>(0, 4, 0)\<close>, turned by half a turn about the z
  axis; each body has one shape, with filter data that is not zero.
\<close>

definition twoBoxes :: world where
  "twoBoxes = sessionUp \<lparr> live := {0, 1, 2, 3, 4, 5, 6, 7, 8}, fresh := 9,
     scenes := [6 \<mapsto> \<lparr> gravity = PxVec3 0 (- (981 / 100)) 0, cpuDispatcher = Some 3,
                        sceneActors = [7, 8] \<rparr>],
     actors := [7 \<mapsto> \<lparr> dynamic = True, globalPose = PxTransform (PxVec3 0 2 0) PxIdentity,
                        shapes = [PxFilterData 1 2 3 4], userData = Some 0, mass = 1000 \<rparr>,
                8 \<mapsto> \<lparr> dynamic = True, globalPose = PxTransform (PxVec3 0 4 0) (PxQuat 0 0 1 0),
                        shapes = [PxFilterData 5 6 7 8], userData = Some 1, mass = 1000 \<rparr>],
     entities := [0 \<mapsto> \<lparr> position = vec3 0 2 0, rotation = quat 0 0 0 1, scale = vec3 16 (1 / 2) 3,
                          ekind = IsDynamic, body = Some 7 \<rparr>,
                  1 \<mapsto> \<lparr> position = vec3 0 4 0, rotation = quat 0 0 0 1, scale = vec3 16 (1 / 2) 3,
                          ekind = IsDynamic, body = Some 8 \<rparr>],
     freshEntity := 2 \<rparr>"

text \<open>
  Two engines whose creations all succeed and whose simulation step moves nothing: one
  that never touches filter data, and one that resets the filter data of the shapes of
  both bodies when a joint is created and when its collision flag is set.
\<close>

definition plainEngine :: engine where
  "plainEngine = \<lparr> succeeds = (\<lambda>k. True), jointCreateFilter = (\<lambda>h i fd. fd),
     collisionFlagFilter = (\<lambda>h i fd. fd), simulateStep = (\<lambda>acts. acts) \<rparr>"

definition resettingEngine :: engine where
  "resettingEngine = \<lparr> succeeds = (\<lambda>k. True),
     jointCreateFilter = (\<lambda>h i fd. PxFilterData 0 0 0 0),
     collisionFlagFilter = (\<lambda>h i fd. PxFilterData 0 0 0 0), simulateStep = (\<lambda>acts. acts) \<rparr>"

text \<open>
  The world after \<^verbatim>\<open>addFixedJoint(e0, (1, 0, 0), e1, (0, 0, 0), true)\<close> on \<open>twoBoxes\<close> with
  the resetting engine: body 7 has moved, joint 9 exists, and every filter word is zero.
\<close>

definition twoBoxesJoined :: world where
  "twoBoxesJoined = twoBoxes \<lparr> live := {0, 1, 2, 3, 4, 5, 6, 7, 8, 9}, fresh := 10,
     actors := [7 \<mapsto> \<lparr> dynamic = True, globalPose = PxTransform (PxVec3 (- 1) 4 0) (PxQuat 0 0 1 0),
                        shapes = [PxFilterData 0 0 0 0], userData = Some 0, mass = 1000 \<rparr>,
                8 \<mapsto> \<lparr> dynamic = True, globalPose = PxTransform (PxVec3 0 4 0) (PxQuat 0 0 1 0),
                        shapes = [PxFilterData 0 0 0 0], userData = Some 1, mass = 1000 \<rparr>],
     joints := [9 \<mapsto> FixedJoint (Some 8) (PxTransform (PxVec3 0 0 0) PxIdentity)
                       (Some 7) (PxTransform (PxVec3 1 0 0) PxIdentity) False],
     trace := [JointCreate (Some 8) (Some 7)] \<rparr>"

text \<open>
  A scene after a step: the static ground (entity 2, body 9) and the two boxes of
  \<open>twoBoxes\<close>, whose bodies have moved while the entities still show the old poses; and
  the same world after \<^verbatim>\<open>updateStates\<close>.
\<close>

definition movedScene :: world where
  "movedScene = twoBoxes \<lparr> live := {0, 1, 2, 3, 4, 5, 6, 7, 8, 9}, fresh := 10,
     scenes := [6 \<mapsto> \<lparr> gravity = PxVec3 0 (- (981 / 100)) 0, cpuDispatcher = Some 3,
                        sceneActors = [9, 7, 8] \<rparr>],
     actors := [7 \<mapsto> \<lparr> dynamic = True, globalPose = PxTransform (PxVec3 3 2 1) (PxQuat 0 1 0 0),
                        shapes = [PxFilterData 1 2 3 4], userData = Some 0, mass = 1000 \<rparr>,
                8 \<mapsto> \<lparr> dynamic = True, globalPose = PxTransform (PxVec3 0 5 0) (PxQuat 0 0 1 0),
                        shapes = [PxFilterData 5 6 7 8], userData = Some 1, mass = 1000 \<rparr>,
                9 \<mapsto> \<lparr> dynamic = False, globalPose = PxTransform (PxVec3 0 0 0) PxIdentity,
                        shapes = [PxFilterData 0 0 0 0], userData = None, mass = 0 \<rparr>],
     entities := [0 \<mapsto> \<lparr> position = vec3 0 2 0, rotation = quat 0 0 0 1, scale = vec3 16 (1 / 2) 3,
                          ekind = IsDynamic, body = Some 7 \<rparr>,
                  1 \<mapsto> \<lparr> position = vec3 0 4 0, rotation = quat 0 0 0 1, scale = vec3 16 (1 / 2) 3,
                          ekind = IsDynamic, body = Some 8 \<rparr>,
                  2 \<mapsto> \<lparr> position = vec3 0 0 0, rotation = quat 0 0 0 1, scale = vec3 180 1 180,
                          ekind = IsStatic, body = Some 9 \<rparr>],
     freshEntity := 3 \<rparr>"

definition movedSceneSynced :: world where
  "movedSceneSynced = movedScene \<lparr>
     entities := [0 \<mapsto> \<lparr> position = vec3 3 2 1, rotation = quat 0 0 1 0, scale = vec3 16 (1 / 2) 3,
                          ekind = IsDynamic, body = Some 7 \<rparr>,
                  1 \<mapsto> \<lparr> position = vec3 0 5 0, rotation = quat 0 0 0 1, scale = vec3 16 (1 / 2) 3,
                          ekind = IsDynamic, body = Some 8 \<rparr>,
                  2 \<mapsto> \<lparr> position = vec3 0 0 0, rotation = quat 0 0 0 1, scale = vec3 180 1 180,
                          ekind = IsStatic, body = Some 9 \<rparr>] \<rparr>"

text \<open>
  The world in which \<^verbatim>\<open>main\<close> enters its loop when it starts from the initial globals
  with the plain engine: the ground is entity 0 with body 7, C is entity 1 with body 8,
  B is entity 2 with body 9, joint 10 holds C to B, and A is entity 3 with body 11. Then
  the same world after one turn of the loop in which the trigger does not fire, and
  after the shutdown that follows a quit event.
\<close>

definition mainScene :: world where
  "mainScene = sessionUp \<lparr> live := {0, 1, 2, 3, 4, 5, 6, 7, 8, 9, 10, 11}, fresh := 12,
     scenes := [6 \<mapsto> \<lparr> gravity = PxVec3 0 (- (981 / 100)) 0, cpuDispatcher = Some 3,
                        sceneActors = [7, 8, 9, 11] \<rparr>],
     actors := [7 \<mapsto> \<lparr> dynamic = False, globalPose = PxTransform (PxVec3 0 0 0) PxIdentity,
                        shapes = [PxFilterData 0 0 0 0], userData = None, mass = 0 \<rparr>,
                8 \<mapsto> \<lparr> dynamic = True, globalPose = PxTransform (PxVec3 0 2 0) PxIdentity,
                        shapes = [PxFilterData 0 0 0 0], userData = Some 1, mass = 1000 \<rparr>,
                9 \<mapsto> \<lparr> dynamic = True, globalPose = PxTransform (PxVec3 0 4 0) PxIdentity,
                        shapes = [PxFilterData 0 0 0 0], userData = Some 2, mass = 1000 \<rparr>,
                11 \<mapsto> \<lparr> dynamic = True, globalPose = PxTransform (PxVec3 0 5 0) PxIdentity,
                        shapes = [PxFilterData 0 0 0 0], userData = Some 3, mass = 50 \<rparr>],
     joints := [10 \<mapsto> FixedJoint (Some 9) (PxTransform (PxVec3 0 (- 1) 0) PxIdentity)
                        (Some 8) (PxTransform (PxVec3 0 1 0) PxIdentity) False],
     entities := [0 \<mapsto> \<lparr> position = vec3 0 0 0, rotation = quat 0 0 0 1, scale = vec3 180 1 180,
                          ekind = IsStatic, body = Some 7 \<rparr>,
                  1 \<mapsto> \<lparr> position = vec3 0 2 0, rotation = quat 0 0 0 1, scale = vec3 16 (1 / 2) 3,
                          ekind = IsDynamic, body = Some 8 \<rparr>,
                  2 \<mapsto> \<lparr> position = vec3 0 4 0, rotation = quat 0 0 0 1, scale = vec3 16 (1 / 2) 3,
                          ekind = IsDynamic, body = Some 9 \<rparr>,
                  3 \<mapsto> \<lparr> position = vec3 0 5 0, rotation = quat 0 0 0 1, scale = vec3 1 1 1,
                          ekind = IsDynamic, body = Some 11 \<rparr>],
     freshEntity := 4,
     trace := [JointCreate (Some 9) (Some 8)] \<rparr>"

definition afterOneTurn :: world where
  "afterOneTurn = mainScene \<lparr>
     entities := [0 \<mapsto> \<lparr> position = vec3 0 0 0, rotation = quat 0 0 0 1, scale = vec3 180 1 180,
                          ekind = IsStatic, body = Some 7 \<rparr>,
                  1 \<mapsto> \<lparr> position = vec3 0 2 0, rotation = quat 1 0 0 0, scale = vec3 16 (1 / 2) 3,
                          ekind = IsDynamic, body = Some 8 \<rparr>,
                  2 \<mapsto> \<lparr> position = vec3 0 4 0, rotation = quat 1 0 0 0, scale = vec3 16 (1 / 2) 3,
                          ekind = IsDynamic, body = Some 9 \<rparr>,
                  3 \<mapsto> \<lparr> position = vec3 0 5 0, rotation = quat 1 0 0 0, scale = vec3 1 1 1,
                          ekind = IsDynamic, body = Some 11 \<rparr>],
     trace := [JointCreate (Some 9) (Some 8), Simulate (1 / 60), FetchResults, Clear,
               DrawBox (vec3 0 0 0) (quat 0 0 0 1) (vec3 180 1 180) (Color (2 / 10) (2 / 10) 1),
               DrawBox (vec3 0 5 0) (quat 1 0 0 0) (vec3 1 1 1) (Color (2 / 10) 1 (2 / 10)),
               DrawBox (vec3 0 4 0) (quat 1 0 0 0) (vec3 16 (1 / 2) 3) (Color 1 (2 / 10) (2 / 10)),
               DrawBox (vec3 0 2 0) (quat 1 0 0 0) (vec3 16 (1 / 2) 3) (Color 1 (2 / 10) (2 / 10)),
               Refresh, Usleep 1000] \<rparr>"

definition afterShutdown :: world where
  "afterShutdown = afterOneTurn \<lparr> gFoundation := None, gDispatcher := None, gCooking := None,
     gPhysics := None, live := {5, 7, 8, 9, 10, 11},
     trace := trace afterOneTurn @ [GraphicsDeinit, SDLQuit] \<rparr>"

section \<open>Facts about faults and handles\<close>

lemma andThen_simps [simp]: "andThen (Inl e) f = Inl e" "andThen (Inr x) f = f x"
  by (simp_all add: andThen_def)

lemma andThen_Inr: "andThen m f = Inr y \<longleftrightarrow> (\<exists>x. m = Inr x \<and> f x = Inr y)"
  by (cases m) simp_all

lemma deref_Inr: "deref s ptr = Inr h \<longleftrightarrow> ptr = Some h \<and> h \<in> live s"
  by (auto simp: deref_def split: option.splits)

section \<open>The session lifecycle\<close>

lemma initPhysics_run: "initPhysics (\<lambda>k. True) initial_world = Inr (True, sessionUp)"
  by (simp add: initPhysics_def Let_def create_def deref_def say_def initial_world_def
      sessionUp_def) auto

lemma deinitPhysics_run: "deinitPhysics sessionUp = Inr sessionDown"
  by (simp add: deinitPhysics_def Let_def deref_def release_def sessionUp_def
      sessionDown_def) auto

lemma deinitPhysics_early: "gFoundation s = None \<Longrightarrow> deinitPhysics s = Inr s"
  by (simp add: deinitPhysics_def)

lemma deinitPhysics_clears_foundation: "deinitPhysics s = Inr s' \<Longrightarrow> gFoundation s' = None"
  by (auto simp: deinitPhysics_def Let_def andThen_Inr release_def split: if_splits)

text \<open>
  A first call of \<^verbatim>\<open>initPhysics\<close> returns exactly when the engine creates the foundation
  and the physics instance; the other four creations may fail without a fault.
\<close>

lemma initPhysics_returns_iff:
  "gFoundation s = None \<Longrightarrow>
   (\<exists>r s'. initPhysics ok1 s = Inr (r, s')) \<longleftrightarrow> ok1 KFoundation \<and> ok1 KPhysics"
  by (auto simp add: initPhysics_def Let_def create_def deref_def say_def
      split: prod.splits if_splits)

text \<open>
  Whenever \<^verbatim>\<open>deinitPhysics\<close> returns, the scene and material pointers are what they
  were: lines 140 to 143 assign \<^verbatim>\<open>nullptr\<close> to the other four globals only.
\<close>

lemma deinitPhysics_keeps_scene_material:
  "deinitPhysics s = Inr s' \<Longrightarrow>
   gPhysicsScene s' = gPhysicsScene s \<and> gPhysicsMaterial s' = gPhysicsMaterial s"
  by (auto simp: deinitPhysics_def Let_def andThen_Inr release_def split: if_splits)

text \<open>
  Whenever \<^verbatim>\<open>deinitPhysics\<close> does its work and returns, the scene pointer is not null
  afterwards, and the scene it points to has been released.
\<close>

lemma deinitPhysics_scene_dangles:
  assumes "gFoundation s \<noteq> None" and "deinitPhysics s = Inr s'"
  shows "\<exists>sc. gPhysicsScene s' = Some sc \<and> sc \<notin> live s'"
  using assms
  by (auto simp: deinitPhysics_def Let_def andThen_Inr deref_Inr release_def)

text \<open>
  C1. After a successful \<^verbatim>\<open>initPhysics\<close>, \<^verbatim>\<open>deinitPhysics\<close> is claimed to leave every
  handle of the session null. Run from the initial globals with an engine whose
  creations all succeed, \<^verbatim>\<open>deinitPhysics\<close> returns with the foundation, dispatcher,
  cooking and physics handles null, but with \<^verbatim>\<open>gPhysicsScene\<close> still pointing to the
  released scene 6 and \<^verbatim>\<open>gPhysicsMaterial\<close> still pointing to the material 5.
\<close>

theorem deinitPhysics_leaves_scene_handle:
  "initPhysics (\<lambda>k. True) initial_world = Inr (True, sessionUp) \<and>
   deinitPhysics sessionUp = Inr sessionDown \<and>
   gPhysicsScene sessionDown = Some 6 \<and> 6 \<notin> live sessionDown \<and>
   gPhysicsMaterial sessionDown = Some 5 \<and>
   gFoundation sessionDown = None \<and> gDispatcher sessionDown = None \<and>
   gCooking sessionDown = None \<and> gPhysics sessionDown = None"
  by (simp add: initPhysics_run deinitPhysics_run) (simp add: sessionDown_def sessionUp_def)

text \<open>
  C5. From a state in which the session is not initialised, and with an engine that
  creates the foundation and the physics instance, \<^verbatim>\<open>initPhysics\<close> returns success; a
  second call right after it, whatever the engine would then create, returns failure
  and leaves the whole world as the first call left it: no handle changes and no engine
  object is created.
\<close>

theorem initPhysics_twice:
  assumes "gFoundation s = None" and "ok1 KFoundation" and "ok1 KPhysics"
  shows "\<exists>s'. initPhysics ok1 s = Inr (True, s') \<and> initPhysics ok2 s' = Inr (False, s')"
  using assms
  by (simp add: initPhysics_def Let_def create_def deref_def say_def split: prod.splits)

theorem initPhysics_twice_witness:
  "gFoundation initial_world = None \<and>
   (\<exists>s'. initPhysics (\<lambda>k. True) initial_world = Inr (True, s') \<and>
         initPhysics (\<lambda>k. k \<noteq> KScene) s' = Inr (False, s'))"
  using initPhysics_twice [of initial_world "\<lambda>k. True" "\<lambda>k. k \<noteq> KScene"]
  by (simp add: initial_world_def)

text \<open>
  C6. \<^verbatim>\<open>deinitPhysics\<close> before any \<^verbatim>\<open>initPhysics\<close> (from the initial globals, and from any
  state whose foundation handle is null) returns without a fault and leaves the world
  unchanged; and after any \<^verbatim>\<open>deinitPhysics\<close> that returned, the foundation handle is
  null, so that a second \<^verbatim>\<open>deinitPhysics\<close> takes the early return, without a fault and
  without a change.
\<close>

theorem deinitPhysics_idle:
  "deinitPhysics initial_world = Inr initial_world \<and>
   (gFoundation s = None \<longrightarrow> deinitPhysics s = Inr s) \<and>
   (deinitPhysics s = Inr s' \<longrightarrow> gFoundation s' = None \<and> deinitPhysics s' = Inr s')"
  using deinitPhysics_clears_foundation [of s s'] deinitPhysics_early
  by (auto simp: initial_world_def)

theorem deinitPhysics_idle_witness:
  "gFoundation initial_world = None \<and> deinitPhysics initial_world = Inr initial_world \<and>
   deinitPhysics sessionUp = Inr sessionDown \<and> gFoundation sessionDown = None \<and>
   deinitPhysics sessionDown = Inr sessionDown"
  using deinitPhysics_idle [of initial_world] deinitPhysics_idle [of sessionUp sessionDown]
    deinitPhysics_run
  by (simp add: initial_world_def)

section \<open>Joint creation\<close>

lemma derefEntity_Inr: "derefEntity s e = Inr ent \<longleftrightarrow> entities s e = Some ent"
  by (auto simp: derefEntity_def split: option.splits)

lemma derefActor_Inr:
  "derefActor s ptr = Inr (h, a) \<longleftrightarrow> ptr = Some h \<and> h \<in> live s \<and> actors s h = Some a"
  by (auto simp: derefActor_def andThen_Inr deref_Inr split: option.splits)

lemma getGlobalPose_Inr:
  "getGlobalPose ptr s = Inr pose \<longleftrightarrow>
   (\<exists>h a. ptr = Some h \<and> h \<in> live s \<and> actors s h = Some a \<and> globalPose a = pose)"
  by (auto simp: getGlobalPose_def andThen_Inr derefActor_Inr)

lemma setGlobalPose_Inr:
  "setGlobalPose ptr pose s = Inr s' \<longleftrightarrow>
   (\<exists>h a. ptr = Some h \<and> h \<in> live s \<and> actors s h = Some a \<and>
      s' = s\<lparr>actors := (actors s)(h \<mapsto> a\<lparr>globalPose := pose\<rparr>)\<rparr>)"
  by (auto simp: setGlobalPose_def andThen_Inr derefActor_Inr)

lemma refilter_simps [simp]:
  "globalPose (refilter f h a) = globalPose a"
  "length (shapes (refilter f h a)) = length (shapes a)"
  "userData (refilter f h a) = userData a"
  "dynamic (refilter f h a) = dynamic a"
  by (simp_all add: refilter_def)

lemma PxFixedJointCreate_Inr:
  assumes "PxFixedJointCreate eng a0 f0 a1 f1 s = Inr (j, s')"
  shows "entities s' = entities s"
    and "live s \<subseteq> live s'"
    and "actors s' = (\<lambda>h. if Some h = a0 \<or> Some h = a1
            then map_option (refilter (jointCreateFilter eng) h) (actors s h) else actors s h)"
    and "trace s' = trace s @ [JointCreate a0 a1]"
  using assms
  by (auto simp: PxFixedJointCreate_def andThen_Inr create_def say_def refilterBodies_def
      Let_def split: if_splits option.splits)

lemma setCollisionEnabled_Inr:
  assumes "setCollisionEnabled eng j v s = Inr s'"
  shows "\<exists>jh b0 f0 b1 f1 c. j = Some jh \<and> jh \<in> live s \<and>
           joints s jh = Some (FixedJoint b0 f0 b1 f1 c) \<and>
           s' = refilterBodies (collisionFlagFilter eng) b0 b1
                  (s\<lparr>joints := (joints s)(jh \<mapsto> FixedJoint b0 f0 b1 f1 v)\<rparr>)"
proof -
  from assms obtain jh where jh: "deref s j = Inr jh"
    by (auto simp: setCollisionEnabled_def andThen_Inr)
  with assms obtain jt where jt: "joints s jh = Some jt"
    by (cases "joints s jh") (auto simp: setCollisionEnabled_def)
  obtain b0 f0 b1 f1 c where "jt = FixedJoint b0 f0 b1 f1 c"
    by (cases jt)
  with assms jh jt show ?thesis
    by (auto simp: setCollisionEnabled_def deref_Inr)
qed

lemma map_nth_take: "n \<le> length fd \<Longrightarrow> map (\<lambda>i. fd ! i) [0..<n] = take n fd"
  by (simp add: list_eq_iff_nth_eq)

lemma map_nth_upt [simp]: "map (\<lambda>i. xs ! i) [0..<length xs] = xs"
  by (simp add: map_nth)

lemma getFilterData_Inr:
  "getFilterData e s = Inr fd \<longleftrightarrow>
   (\<exists>ent h a. entities s e = Some ent \<and> body ent = Some h \<and> h \<in> live s \<and>
      actors s h = Some a \<and> fd = shapes a)"
  by (auto simp: getFilterData_def andThen_Inr derefEntity_Inr derefActor_Inr)

lemma setFilterData_Inr:
  assumes "setFilterData e fd s = Inr s'"
  shows "\<exists>ent h a. entities s e = Some ent \<and> body ent = Some h \<and> h \<in> live s \<and>
      actors s h = Some a \<and> length (shapes a) \<le> length fd \<and>
      s' = s\<lparr>actors := (actors s)(h \<mapsto> a\<lparr>shapes := take (length (shapes a)) fd\<rparr>)\<rparr>"
  using assms
  by (auto simp: setFilterData_def andThen_Inr derefEntity_Inr derefActor_Inr map_nth_take
      split: if_splits)

lemma addFixedJoint_Inr:
  assumes "addFixedJoint eng A posA B posB w s = Inr s'"
  shows "\<exists>entA hA aA entB hB aB.
      entities s A = Some entA \<and> body entA = Some hA \<and> hA \<in> live s \<and> actors s hA = Some aA \<and>
      entities s B = Some entB \<and> body entB = Some hB \<and> hB \<in> live s \<and> actors s hB = Some aB \<and>
      entities s' = entities s \<and> live s \<subseteq> live s' \<and>
      trace s' = trace s @ [JointCreate (Some hB) (Some hA)] \<and>
      (\<forall>h. map_option globalPose (actors s' h) =
         (if h = hA then Some (newMeTr posA (globalPose aB) posB)
          else map_option globalPose (actors s h))) \<and>
      (w \<longrightarrow> map_option shapes (actors s' hA) =
         Some (map (\<lambda>i. jointCreateFilter eng hA i (shapes aA ! i)) [0..<length (shapes aA)]))"
proof -
  from assms obtain entB poseB entA s1 j s2 where
    entB: "entities s B = Some entB" and poseB: "getGlobalPose (body entB) s = Inr poseB" and
    entA: "entities s A = Some entA" and
    s1: "setGlobalPose (body entA) (newMeTr posA poseB posB) s = Inr s1" and
    s2: "PxFixedJointCreate eng (body entB) (PxTransform (toPxVec3 posB) PxIdentity) (body entA)
           (PxTransform (toPxVec3 posA) PxIdentity) s1 = Inr (j, s2)" and
    rest: "(if w then andThen (getFilterData A s2) (\<lambda>fd.
              andThen (setCollisionEnabled eng j False s2) (\<lambda>s3. setFilterData A fd s3))
            else setCollisionEnabled eng j False s2) = Inr s'"
    by (auto simp: addFixedJoint_def andThen_Inr derefEntity_Inr Let_def newMeTr_def)
  from poseB obtain hB aB where hB: "body entB = Some hB" "hB \<in> live s" "actors s hB = Some aB"
    "globalPose aB = poseB"
    by (auto simp: getGlobalPose_Inr)
  from s1 obtain hA aA where hA: "body entA = Some hA" "hA \<in> live s" "actors s hA = Some aA"
    and s1_eq: "s1 = s\<lparr>actors := (actors s)(hA \<mapsto> aA\<lparr>globalPose := newMeTr posA poseB posB\<rparr>)\<rparr>"
    by (auto simp: setGlobalPose_Inr)
  note c = PxFixedJointCreate_Inr [OF s2]
  have a2: "actors s2 hA = Some (refilter (jointCreateFilter eng) hA (aA\<lparr>globalPose := newMeTr posA poseB posB\<rparr>))"
    using c(3) hA s1_eq by simp
  have p2: "map_option globalPose (actors s2 h) =
         (if h = hA then Some (newMeTr posA poseB posB) else map_option globalPose (actors s h))" for h
    using c(3) s1_eq by (auto simp: map_option.compositionality comp_def)
  have n2: "map_option (\<lambda>a. length (shapes a)) (actors s2 h) = map_option (\<lambda>a. length (shapes a)) (actors s1 h)" for h
    using c(3) by (auto simp: map_option.compositionality comp_def)
  show ?thesis
  proof (cases w)
    case False
    with rest have "setCollisionEnabled eng j False s2 = Inr s'" by simp
    from setCollisionEnabled_Inr [OF this] obtain jh b0 f0 b1 f1 cc where
      s': "s' = refilterBodies (collisionFlagFilter eng) b0 b1
                  (s2\<lparr>joints := (joints s2)(jh \<mapsto> FixedJoint b0 f0 b1 f1 False)\<rparr>)"
      by blast
    have "map_option globalPose (actors s' h) = map_option globalPose (actors s2 h)" for h
      by (simp add: s' refilterBodies_def map_option.compositionality comp_def)
    moreover have "entities s' = entities s" "live s \<subseteq> live s'"
      "trace s' = trace s @ [JointCreate (Some hB) (Some hA)]"
      using c(1,2,4) s1_eq hA hB by (simp_all add: s' refilterBodies_def)
    ultimately show ?thesis
      using False entA entB hA hB p2 by simp
  next
    case True
    with rest obtain fd s3 where fd: "getFilterData A s2 = Inr fd"
      and s3: "setCollisionEnabled eng j False s2 = Inr s3"
      and fin: "setFilterData A fd s3 = Inr s'"
      by (auto simp: andThen_Inr)
    from setCollisionEnabled_Inr [OF s3] obtain jh b0 f0 b1 f1 cc where
      s3_eq: "s3 = refilterBodies (collisionFlagFilter eng) b0 b1
                  (s2\<lparr>joints := (joints s2)(jh \<mapsto> FixedJoint b0 f0 b1 f1 False)\<rparr>)"
      by blast
    have e2: "entities s2 = entities s" using c(1) s1_eq by simp
    have e3: "entities s3 = entities s" using e2 by (simp add: s3_eq refilterBodies_def)
    have fd_eq: "fd = shapes (refilter (jointCreateFilter eng) hA (aA\<lparr>globalPose := newMeTr posA poseB posB\<rparr>))"
      using fd a2 entA hA e2 by (auto simp: getFilterData_Inr)
    have p3: "map_option globalPose (actors s3 h) = map_option globalPose (actors s2 h)" for h
      by (simp add: s3_eq refilterBodies_def map_option.compositionality comp_def)
    have "\<exists>a3. actors s3 hA = Some a3 \<and> length (shapes a3) = length fd"
      using a2 fd_eq by (simp add: s3_eq refilterBodies_def)
    then obtain a3 where a3: "actors s3 hA = Some a3" "length (shapes a3) = length fd"
      by blast
    from setFilterData_Inr [OF fin] a3 e3 entA hA
    have s'_eq: "s' = s3\<lparr>actors := (actors s3)(hA \<mapsto> a3\<lparr>shapes := fd\<rparr>)\<rparr>"
      by auto
    have p': "map_option globalPose (actors s' h) = map_option globalPose (actors s3 h)" for h
      using a3 by (simp add: s'_eq)
    have "entities s' = entities s" "live s \<subseteq> live s'"
      "trace s' = trace s @ [JointCreate (Some hB) (Some hA)]"
      using c(2,4) s1_eq e3 hA hB by (simp_all add: s'_eq s3_eq refilterBodies_def)
    moreover have "map_option shapes (actors s' hA) =
         Some (map (\<lambda>i. jointCreateFilter eng hA i (shapes aA ! i)) [0..<length (shapes aA)])"
      by (simp add: s'_eq fd_eq refilter_def)
    ultimately show ?thesis
      using entA entB hA hB p2 p3 p' by simp
  qed
qed


lemma bodyPose_Inr:
  "bodyPose e s = Inr pose \<longleftrightarrow>
   (\<exists>ent h a. entities s e = Some ent \<and> body ent = Some h \<and> h \<in> live s \<and>
      actors s h = Some a \<and> globalPose a = pose)"
  by (auto simp: bodyPose_def andThen_Inr derefEntity_Inr getGlobalPose_Inr)

lemma bodyPose_eval:
  "entities s e = Some ent \<Longrightarrow> body ent = Some h \<Longrightarrow> h \<in> live s \<Longrightarrow>
   bodyPose e s = (case map_option globalPose (actors s h) of None \<Rightarrow> Inl UseAfterRelease | Some p \<Rightarrow> Inr p)"
  by (simp add: bodyPose_def derefEntity_def getGlobalPose_def derefActor_def deref_def
      split: option.splits)

lemma addFixedJoint_bodyPoses:
  assumes "addFixedJoint eng A posA B posB w s = Inr s'" and "bodyOf s A \<noteq> bodyOf s B"
    and "bodyPose B s = Inr poseB"
  shows "bodyPose A s' = Inr (newMeTr posA poseB posB)" and "bodyPose B s' = Inr poseB"
proof -
  from addFixedJoint_Inr [OF assms(1)] obtain entA hA aA entB hB aB where
    f: "entities s A = Some entA" "body entA = Some hA" "hA \<in> live s"
      "entities s B = Some entB" "body entB = Some hB" "hB \<in> live s" "actors s hB = Some aB"
      "entities s' = entities s" "live s \<subseteq> live s'"
      "\<forall>h. map_option globalPose (actors s' h) =
         (if h = hA then Some (newMeTr posA (globalPose aB) posB)
          else map_option globalPose (actors s h))"
    by blast
  have pB: "poseB = globalPose aB"
    using assms(3) f by (simp add: bodyPose_eval)
  have "hB \<noteq> hA" using assms(2) f by (simp add: bodyOf_def)
  then have "map_option globalPose (actors s' hB) = Some poseB"
    using f pB by simp
  then show "bodyPose B s' = Inr poseB"
    using f by (subst bodyPose_eval [where ent = entB and h = hB]) auto
  show "bodyPose A s' = Inr (newMeTr posA poseB posB)"
    using f pB by (subst bodyPose_eval [where ent = entA and h = hA]) auto
qed

lemma addFixedJoint_filter_after:
  assumes "addFixedJoint eng A posA B posB True s = Inr s'"
    and "getFilterData A s = Inr fd" and "bodyOf s A = Some hA"
  shows "getFilterData A s' = Inr (map (\<lambda>i. jointCreateFilter eng hA i (fd ! i)) [0..<length fd])"
proof -
  from addFixedJoint_Inr [OF assms(1)] obtain entA hA' aA where
    f: "entities s A = Some entA" "body entA = Some hA'" "hA' \<in> live s" "actors s hA' = Some aA"
      "entities s' = entities s" "live s \<subseteq> live s'"
      "map_option shapes (actors s' hA') =
         Some (map (\<lambda>i. jointCreateFilter eng hA' i (shapes aA ! i)) [0..<length (shapes aA)])"
    by auto
  from assms(3) f have h: "hA' = hA" by (simp add: bodyOf_def)
  from assms(2) f have fd: "fd = shapes aA" by (auto simp: getFilterData_Inr)
  show ?thesis
    using f by (auto simp: getFilterData_Inr h fd)
qed

lemma addFixedJoint_run:
  "addFixedJoint resettingEngine 0 (vec3 1 0 0) 1 (vec3 0 0 0) True twoBoxes = Inr twoBoxesJoined"
  by (simp add: addFixedJoint_def getGlobalPose_def setGlobalPose_def PxFixedJointCreate_def
      setCollisionEnabled_def getFilterData_def setFilterData_def derefEntity_def derefActor_def
      deref_def twoBoxes_def twoBoxesJoined_def sessionUp_def resettingEngine_def Let_def
      create_def say_def refilterBodies_def refilter_def PxIdentity_def)
    (auto simp: fun_eq_iff refilter_def)

lemma vec_id [simp]:
  "qmul PxIdentity q = q" "qmul q PxIdentity = q" "rotate_q PxIdentity v = v"
  "getConjugate PxIdentity = PxIdentity"
  by (cases q; cases v; simp add: PxIdentity_def)+

lemma snap_closed_form:
  "transform (transform (getInverse (PxTransform a PxIdentity)) (PxTransform p q)) (PxTransform b PxIdentity)
   = PxTransform (vadd (rotate_q q b) (vadd p (vneg a))) q"
  by (cases a; cases p; cases b; cases q) (simp add: PxIdentity_def)

lemma addFixedJoint_anchor_gap:
  assumes "addFixedJoint eng A posA B posB w s = Inr s'" and "bodyOf s A \<noteq> bodyOf s B"
    and "bodyPose B s = Inr (PxTransform p q)"
  shows "worldAnchor A posA s' = worldAnchor B posB s' \<longleftrightarrow> rotate_q q (toPxVec3 posA) = toPxVec3 posA"
proof -
  from addFixedJoint_bodyPoses(1) [OF assms]
  have A: "bodyPose A s' = Inr (PxTransform (vadd (rotate_q q (toPxVec3 posB)) (vadd p (vneg (toPxVec3 posA)))) q)"
    by (simp add: newMeTr_def snap_closed_form)
  have B: "bodyPose B s' = Inr (PxTransform p q)"
    by (rule addFixedJoint_bodyPoses(2) [OF assms])
  show ?thesis
    unfolding worldAnchor_def A B
    by (cases "toPxVec3 posA"; cases "toPxVec3 posB"; cases p; cases "rotate_q q (toPxVec3 posA)"; cases "rotate_q q (toPxVec3 posB)")
       (auto)
qed

lemma addFixedJoint_returns:
  assumes "entities s A = Some entA" "body entA = Some hA" "hA \<in> live s" "actors s hA = Some aA"
    and "entities s B = Some entB" "body entB = Some hB" "hB \<in> live s" "actors s hB = Some aB"
    and "gPhysics s = Some ph" "ph \<in> live s" "succeeds eng KFixedJoint"
  shows "\<exists>s'. addFixedJoint eng A posA B posB w s = Inr s'"
  using assms
  by (simp add: addFixedJoint_def getGlobalPose_def setGlobalPose_def PxFixedJointCreate_def
      setCollisionEnabled_def getFilterData_def setFilterData_def derefEntity_def derefActor_def
      deref_def Let_def create_def say_def refilterBodies_def)


text \<open>
  When the engine's joint creation leaves the filter data of the shapes of A as they
  are, the filter data of A before the call and after it are the same.
\<close>

lemma addFixedJoint_restores_untouched:
  assumes "addFixedJoint eng A posA B posB True s = Inr s'"
    and "\<And>h i fd. jointCreateFilter eng h i fd = fd"
  shows "getFilterData A s' = getFilterData A s"
proof -
  from addFixedJoint_Inr [OF assms(1)] obtain entA hA aA where
    f: "entities s A = Some entA" "body entA = Some hA" "hA \<in> live s" "actors s hA = Some aA"
    by auto
  then have fd: "getFilterData A s = Inr (shapes aA)" and b: "bodyOf s A = Some hA"
    by (simp_all add: getFilterData_Inr bodyOf_def)
  from addFixedJoint_filter_after [OF assms(1) fd b] fd show ?thesis
    by (simp add: assms(2))
qed

text \<open>
  C2. After \<^verbatim>\<open>addFixedJoint\<close> the world-space points of the two anchors are claimed to
  coincide for all poses and offsets. On \<open>twoBoxes\<close>, where the body of entity 1 is
  turned by half a turn about the z axis (a valid pose), joining entity 0 with the
  offset \<open>(1, 0, 0)\<close> to entity 1 with the offset \<open>(0, 0, 0)\<close> leaves the anchor of entity 0
  at \<open>(-2, 4, 0)\<close> and the anchor of entity 1 at \<open>(0, 4, 0)\<close>. By
  \<open>addFixedJoint_anchor_gap\<close> the two points coincide exactly when the rotation of B
  leaves the offset of A where it is.
\<close>

theorem addFixedJoint_anchor_mismatch:
  "bodyPose 1 twoBoxes = Inr (PxTransform (PxVec3 0 4 0) (PxQuat 0 0 1 0)) \<and>
   isValidPose (PxTransform (PxVec3 0 4 0) (PxQuat 0 0 1 0)) \<and>
   andThen (addFixedJoint plainEngine 0 (vec3 1 0 0) 1 (vec3 0 0 0) False twoBoxes)
     (worldAnchor 0 (vec3 1 0 0)) = Inr (PxVec3 (- 2) 4 0) \<and>
   andThen (addFixedJoint plainEngine 0 (vec3 1 0 0) 1 (vec3 0 0 0) False twoBoxes)
     (worldAnchor 1 (vec3 0 0 0)) = Inr (PxVec3 0 4 0)"
  by (simp add: addFixedJoint_def getGlobalPose_def setGlobalPose_def PxFixedJointCreate_def
      setCollisionEnabled_def derefEntity_def derefActor_def deref_def twoBoxes_def
      sessionUp_def plainEngine_def Let_def create_def say_def refilterBodies_def refilter_def
      worldAnchor_def bodyPose_def PxIdentity_def)

text \<open>
  C3, as stated: with \<^verbatim>\<open>useWorkaround = true\<close> the filter data of A read before the joint
  is created equal the data read after \<^verbatim>\<open>addFixedJoint\<close> returns. With an engine that
  resets filter data when the joint is created this fails: the snapshot of line 261 is
  taken after \<^verbatim>\<open>PxFixedJointCreate\<close> has run.
\<close>

theorem addFixedJoint_workaround_counterexample:
  "addFixedJoint resettingEngine 0 (vec3 1 0 0) 1 (vec3 0 0 0) True twoBoxes = Inr twoBoxesJoined \<and>
   getFilterData 0 twoBoxes = Inr [PxFilterData 1 2 3 4] \<and>
   getFilterData 0 twoBoxesJoined = Inr [PxFilterData 0 0 0 0] \<and>
   getFilterData 0 twoBoxesJoined \<noteq> getFilterData 0 twoBoxes"
proof -
  have before: "getFilterData 0 twoBoxes = Inr [PxFilterData 1 2 3 4]"
    by (simp add: getFilterData_def derefEntity_def derefActor_def deref_def twoBoxes_def
        sessionUp_def)
  have after: "getFilterData 0 twoBoxesJoined = Inr [PxFilterData 0 0 0 0]"
    by (simp add: getFilterData_def derefEntity_def derefActor_def deref_def twoBoxes_def
        twoBoxesJoined_def sessionUp_def)
  show ?thesis
    using addFixedJoint_run before after by simp
qed

text \<open>
  C3, amended. With \<^verbatim>\<open>useWorkaround = true\<close>, the filter data of the shapes of A after
  \<^verbatim>\<open>addFixedJoint\<close> returns are, word for word and in shape-index order, the data as the
  creation of the joint left them: what the engine makes of the data before the call
  when it creates the joint. What setting the collision flag does to them is undone;
  what creating the joint does to them is kept.
\<close>

theorem addFixedJoint_workaround_filter:
  assumes "addFixedJoint eng A posA B posB True s = Inr s'"
  shows "\<exists>hA fd. bodyOf s A = Some hA \<and> getFilterData A s = Inr fd \<and>
     getFilterData A s' = Inr (map (\<lambda>i. jointCreateFilter eng hA i (fd ! i)) [0..<length fd])"
proof -
  from addFixedJoint_Inr [OF assms] obtain entA hA aA where
    f: "entities s A = Some entA" "body entA = Some hA" "hA \<in> live s" "actors s hA = Some aA"
      "entities s' = entities s" "live s \<subseteq> live s'"
      "map_option shapes (actors s' hA) =
         Some (map (\<lambda>i. jointCreateFilter eng hA i (shapes aA ! i)) [0..<length (shapes aA)])"
    by auto
  have "getFilterData A s = Inr (shapes aA)"
    using f by (simp add: getFilterData_Inr)
  moreover have "getFilterData A s' =
      Inr (map (\<lambda>i. jointCreateFilter eng hA i (shapes aA ! i)) [0..<length (shapes aA)])"
    using f by (auto simp: getFilterData_Inr)
  ultimately show ?thesis
    using f by (auto simp: bodyOf_def)
qed

theorem addFixedJoint_workaround_filter_witness:
  "addFixedJoint resettingEngine 0 (vec3 1 0 0) 1 (vec3 0 0 0) True twoBoxes = Inr twoBoxesJoined \<and>
   (\<exists>hA fd. bodyOf twoBoxes 0 = Some hA \<and> getFilterData 0 twoBoxes = Inr fd \<and>
      getFilterData 0 twoBoxesJoined =
        Inr (map (\<lambda>i. jointCreateFilter resettingEngine hA i (fd ! i)) [0..<length fd]))"
  using addFixedJoint_workaround_filter [OF addFixedJoint_run] addFixedJoint_run by simp

text \<open>
  C4. Whenever \<^verbatim>\<open>addFixedJoint\<close> returns, the body of B had a pose at the start of the
  call, and the pose of the body of A after the call is the inverse of the anchor of A,
  times that pose of B, times the anchor of B, the two anchors being the offsets with
  the identity rotation. This holds for both values of \<^verbatim>\<open>useWorkaround\<close>, and also when
  the two entities share one body.
\<close>

theorem addFixedJoint_pose:
  assumes "addFixedJoint eng A posA B posB w s = Inr s'"
  shows "\<exists>currentPoseB. bodyPose B s = Inr currentPoseB \<and>
     bodyPose A s' =
       Inr (transform (transform (getInverse (PxTransform (toPxVec3 posA) PxIdentity)) currentPoseB)
              (PxTransform (toPxVec3 posB) PxIdentity))"
proof -
  from addFixedJoint_Inr [OF assms] obtain entA hA aA entB hB aB where
    f: "entities s A = Some entA" "body entA = Some hA" "hA \<in> live s"
      "entities s B = Some entB" "body entB = Some hB" "hB \<in> live s" "actors s hB = Some aB"
      "entities s' = entities s" "live s \<subseteq> live s'"
      "\<forall>h. map_option globalPose (actors s' h) =
         (if h = hA then Some (newMeTr posA (globalPose aB) posB)
          else map_option globalPose (actors s h))"
    by blast
  have "bodyPose B s = Inr (globalPose aB)"
    using f by (simp add: bodyPose_eval)
  moreover have "bodyPose A s' = Inr (newMeTr posA (globalPose aB) posB)"
    using f by (subst bodyPose_eval [where ent = entA and h = hA]) auto
  ultimately show ?thesis
    by (simp add: newMeTr_def)
qed

theorem addFixedJoint_pose_witness:
  "addFixedJoint resettingEngine 0 (vec3 1 0 0) 1 (vec3 0 0 0) True twoBoxes = Inr twoBoxesJoined \<and>
   (\<exists>currentPoseB. bodyPose 1 twoBoxes = Inr currentPoseB \<and>
      bodyPose 0 twoBoxesJoined =
        Inr (transform (transform (getInverse (PxTransform (toPxVec3 (vec3 1 0 0)) PxIdentity))
                          currentPoseB)
               (PxTransform (toPxVec3 (vec3 0 0 0)) PxIdentity)))"
  using addFixedJoint_pose [OF addFixedJoint_run] addFixedJoint_run by simp

text \<open>
  C10, as stated: \<^verbatim>\<open>addFixedJoint\<close> never changes the pose of the body of B, for every
  input. The two parameters are references and may name one entity: joining entity 0
  of \<open>twoBoxes\<close> to itself with the offsets \<open>(1, 0, 0)\<close> and \<open>(0, 0, 0)\<close> moves its body from
  \<open>(0, 2, 0)\<close> to \<open>(-1, 2, 0)\<close>.
\<close>

theorem addFixedJoint_other_pose_counterexample:
  "bodyPose 0 twoBoxes = Inr (PxTransform (PxVec3 0 2 0) PxIdentity) \<and>
   andThen (addFixedJoint plainEngine 0 (vec3 1 0 0) 0 (vec3 0 0 0) False twoBoxes) (bodyPose 0)
     = Inr (PxTransform (PxVec3 (- 1) 2 0) PxIdentity)"
  by (simp add: addFixedJoint_def getGlobalPose_def setGlobalPose_def PxFixedJointCreate_def
      setCollisionEnabled_def derefEntity_def derefActor_def deref_def twoBoxes_def
      sessionUp_def plainEngine_def Let_def create_def say_def refilterBodies_def refilter_def
      bodyPose_def PxIdentity_def)

text \<open>
  C10, amended. When the bodies of the two entities are different actors, the pose of
  the body of B after \<^verbatim>\<open>addFixedJoint\<close> returns is its pose before the call, for both
  values of \<^verbatim>\<open>useWorkaround\<close>.
\<close>

theorem addFixedJoint_keeps_other_pose:
  assumes "addFixedJoint eng A posA B posB w s = Inr s'" and "bodyOf s A \<noteq> bodyOf s B"
  shows "bodyPose B s' = bodyPose B s"
proof -
  from addFixedJoint_Inr [OF assms(1)] obtain entA hA aA entB hB aB where
    f: "entities s A = Some entA" "body entA = Some hA" "hA \<in> live s"
      "entities s B = Some entB" "body entB = Some hB" "hB \<in> live s" "actors s hB = Some aB"
      "entities s' = entities s" "live s \<subseteq> live s'"
      "\<forall>h. map_option globalPose (actors s' h) =
         (if h = hA then Some (newMeTr posA (globalPose aB) posB)
          else map_option globalPose (actors s h))"
    by blast
  have "hB \<noteq> hA" using assms(2) f by (simp add: bodyOf_def)
  then have "map_option globalPose (actors s' hB) = map_option globalPose (actors s hB)"
    using f by simp
  moreover have "bodyPose B s' = (case map_option globalPose (actors s' hB) of None \<Rightarrow> Inl UseAfterRelease | Some p \<Rightarrow> Inr p)"
    using f by (subst bodyPose_eval [where ent = entB and h = hB]) auto
  moreover have "bodyPose B s = (case map_option globalPose (actors s hB) of None \<Rightarrow> Inl UseAfterRelease | Some p \<Rightarrow> Inr p)"
    using f by (subst bodyPose_eval [where ent = entB and h = hB]) auto
  ultimately show ?thesis by simp
qed

theorem addFixedJoint_keeps_other_pose_witness:
  "addFixedJoint resettingEngine 0 (vec3 1 0 0) 1 (vec3 0 0 0) True twoBoxes = Inr twoBoxesJoined \<and>
   bodyOf twoBoxes 0 \<noteq> bodyOf twoBoxes 1 \<and>
   bodyPose 1 twoBoxesJoined = bodyPose 1 twoBoxes"
proof -
  have d: "bodyOf twoBoxes 0 \<noteq> bodyOf twoBoxes 1"
    by (simp add: bodyOf_def twoBoxes_def)
  show ?thesis
    using addFixedJoint_keeps_other_pose [OF addFixedJoint_run d] addFixedJoint_run d by simp
qed


section \<open>State synchronisation by \<^verbatim>\<open>updateStates\<close>\<close>

lemma updateStates_run: "updateStates movedScene = Inr movedSceneSynced"
  by (simp add: updateStates_def getActors_def isDynamicActor_def getGlobalPose_def
      derefActor_def derefEntity_def deref_def movedScene_def movedSceneSynced_def twoBoxes_def
      sessionUp_def Let_def)
    (auto simp: fun_eq_iff)

lemma updateStates_loop_Cons:
  assumes "updateStates_loop (h # hs) s = Inr s'"
  shows "\<exists>a p q e ent. h \<in> live s \<and> actors s h = Some a \<and> globalPose a = PxTransform p q \<and>
      userData a = Some e \<and> entities s e = Some ent \<and>
      updateStates_loop hs
        (s\<lparr>entities := (entities s)(e \<mapsto> ent\<lparr>position := toVec3 p, rotation := toQuat q\<rparr>)\<rparr>) = Inr s'"
proof -
  from assms obtain localTm a where
    g: "getGlobalPose (Some h) s = Inr localTm" and a: "derefActor s (Some h) = Inr (h, a)" and
    r: "(case localTm of PxTransform p q \<Rightarrow>
         (case userData a of None \<Rightarrow> Inl NullDeref
          | Some e \<Rightarrow>
              andThen (derefEntity s e) (\<lambda>ent.
                updateStates_loop hs
                  (s\<lparr>entities := (entities s)(e \<mapsto> ent\<lparr>position := toVec3 p, rotation := toQuat q\<rparr>)\<rparr>)))) = Inr s'"
    by (auto simp: andThen_Inr derefActor_Inr)
  obtain p q where pq: "localTm = PxTransform p q" by (cases localTm)
  from r pq obtain e where e: "userData a = Some e" by (cases "userData a") auto
  from r pq e obtain ent where "entities s e = Some ent"
    "updateStates_loop hs
        (s\<lparr>entities := (entities s)(e \<mapsto> ent\<lparr>position := toVec3 p, rotation := toQuat q\<rparr>)\<rparr>) = Inr s'"
    by (auto simp: andThen_Inr derefEntity_Inr)
  with g a pq e show ?thesis
    by (auto simp: getGlobalPose_Inr derefActor_Inr)
qed

lemma updateStates_loop_frame:
  "updateStates_loop hs s = Inr s' \<Longrightarrow> s'\<lparr>entities := entities s\<rparr> = s"
proof (induction hs arbitrary: s)
  case Nil
  then show ?case by simp
next
  case (Cons h hs)
  from updateStates_loop_Cons [OF Cons.prems] obtain s1 where
    "updateStates_loop hs s1 = Inr s'" and s1: "s1\<lparr>entities := entities s\<rparr> = s"
    by auto
  from Cons.IH [OF this(1)] have "s'\<lparr>entities := entities s1\<rparr> = s1" .
  then have "(s'\<lparr>entities := entities s1\<rparr>)\<lparr>entities := entities s\<rparr> = s1\<lparr>entities := entities s\<rparr>"
    by simp
  with s1 show ?case by simp
qed

lemma backrefOk_iff:
  "backrefOk s h \<longleftrightarrow>
   (\<exists>a e ent. actors s h = Some a \<and> userData a = Some e \<and> entities s e = Some ent \<and>
      ekind ent = IsDynamic \<and> body ent = Some h)"
  by (auto simp: backrefOk_def split: option.splits)

lemma backrefOk_write:
  assumes "backrefOk s x" and "entities s e = Some ent"
  shows "backrefOk (s\<lparr>entities := (entities s)(e \<mapsto> ent\<lparr>position := v, rotation := r\<rparr>)\<rparr>) x"
proof -
  from assms(1) obtain a e' ent' where
    f: "actors s x = Some a" "userData a = Some e'" "entities s e' = Some ent'"
       "ekind ent' = IsDynamic" "body ent' = Some x"
    by (auto simp: backrefOk_iff)
  show ?thesis
  proof (cases "e' = e")
    case True
    with f assms(2) show ?thesis by (simp add: backrefOk_iff)
  next
    case False
    with f show ?thesis by (simp add: backrefOk_iff)
  qed
qed

lemma updateStates_loop_entities:
  "updateStates_loop hs s = Inr s' \<Longrightarrow> list_all (backrefOk s) hs \<Longrightarrow>
   entities s' = syncEntity s hs"
proof (induction hs arbitrary: s)
  case Nil
  then show ?case
    by (auto simp: syncEntity_def fun_eq_iff split: option.splits)
next
  case (Cons h hs)
  from updateStates_loop_Cons [OF Cons.prems(1)] obtain a p q e ent where
    f: "actors s h = Some a" "globalPose a = PxTransform p q" "userData a = Some e"
       "entities s e = Some ent"
    and run: "updateStates_loop hs
        (s\<lparr>entities := (entities s)(e \<mapsto> ent\<lparr>position := toVec3 p, rotation := toQuat q\<rparr>)\<rparr>) = Inr s'"
    by blast
  let ?s1 = "s\<lparr>entities := (entities s)(e \<mapsto> ent\<lparr>position := toVec3 p, rotation := toQuat q\<rparr>)\<rparr>"
  from Cons.prems(2) f have bh: "body ent = Some h" "ekind ent = IsDynamic"
    by (simp_all add: backrefOk_def)
  have ok1: "list_all (backrefOk ?s1) hs"
    using Cons.prems(2) f(4) by (simp add: list_all_iff backrefOk_write)
  from Cons.IH [OF run ok1] have "entities s' = syncEntity ?s1 hs" .
  moreover have "syncEntity ?s1 hs x = syncEntity s (h # hs) x" for x
    using f bh by (auto simp: syncEntity_def split: option.splits)
  ultimately show ?case by (simp add: fun_eq_iff)
qed


lemma updateStates_as_loop:
  assumes "updateStates s = Inr s'"
  shows "updateStates_loop (dynamicActors s) s = Inr s'"
proof -
  from assms obtain sc where sc: "gPhysicsScene s = Some sc"
    by (auto simp: updateStates_def andThen_Inr deref_Inr)
  with assms obtain d where d: "scenes s sc = Some d"
    by (cases "scenes s sc") (auto simp: updateStates_def andThen_Inr deref_Inr)
  have D: "dynamicActors s = getActors s d"
    by (simp add: dynamicActors_def sc d)
  from assms sc d
  have "(if getActors s d \<noteq> [] then updateStates_loop (getActors s d) s else Inr s) = Inr s'"
    by (auto simp: updateStates_def andThen_Inr deref_Inr Let_def)
  then show ?thesis
    unfolding D by (cases "getActors s d") simp_all
qed

text \<open>
  C8. In a world where the back-reference of every dynamic actor of the scene points to
  a \<^verbatim>\<open>DynamicEntity\<close> whose body is that actor, a call of \<^verbatim>\<open>updateStates\<close> that returns
  leaves, for every dynamic actor of the scene, the translation and the rotation of the
  actor's pose in the position and rotation fields of the entity its back-reference
  points to. Nothing but entities changes; every entity keeps its scale, kind and body;
  every static entity is as it was; and so is every entity that no dynamic actor of the
  scene points to.
\<close>

theorem updateStates_writes_poses:
  assumes "updateStates s = Inr s'" and "list_all (backrefOk s) (dynamicActors s)"
  shows "(\<forall>h \<in> set (dynamicActors s). \<exists>a e ent'.
            actors s h = Some a \<and> userData a = Some e \<and> entities s' e = Some ent' \<and> synced a ent') \<and>
         s'\<lparr>entities := entities s\<rparr> = s \<and>
         (\<forall>e. case entities s e of None \<Rightarrow> entities s' e = None
              | Some ent \<Rightarrow> \<exists>ent'. entities s' e = Some ent' \<and> scale ent' = scale ent \<and>
                             ekind ent' = ekind ent \<and> body ent' = body ent) \<and>
         (\<forall>e ent. entities s e = Some ent \<and> ekind ent = IsStatic \<longrightarrow> entities s' e = Some ent) \<and>
         (\<forall>e. (\<forall>h \<in> set (dynamicActors s). \<forall>a. actors s h = Some a \<longrightarrow> userData a \<noteq> Some e)
              \<longrightarrow> entities s' e = entities s e)"
proof -
  let ?D = "dynamicActors s"
  note loop = updateStates_as_loop [OF assms(1)]
  have ents: "entities s' = syncEntity s ?D"
    by (rule updateStates_loop_entities [OF loop assms(2)])
  have ok: "backrefOk s h" if "h \<in> set ?D" for h
    using assms(2) that by (simp add: list_all_iff)
  have written: "\<exists>a e ent'. actors s h = Some a \<and> userData a = Some e \<and>
      entities s' e = Some ent' \<and> synced a ent'" if h: "h \<in> set ?D" for h
  proof -
    from ok [OF h] obtain a e ent where
      f: "actors s h = Some a" "userData a = Some e" "entities s e = Some ent" "body ent = Some h"
      by (auto simp: backrefOk_iff)
    obtain p q where pq: "globalPose a = PxTransform p q" by (cases "globalPose a")
    have "entities s' e = Some (ent\<lparr>position := toVec3 p, rotation := toQuat q\<rparr>)"
      using f h pq by (simp add: ents syncEntity_def)
    with f pq show ?thesis by (simp add: synced_def)
  qed
  have frame: "s'\<lparr>entities := entities s\<rparr> = s"
    by (rule updateStates_loop_frame [OF loop])
  have kept: "case entities s e of None \<Rightarrow> entities s' e = None
      | Some ent \<Rightarrow> \<exists>ent'. entities s' e = Some ent' \<and> scale ent' = scale ent \<and>
                     ekind ent' = ekind ent \<and> body ent' = body ent" for e
    by (auto simp: ents syncEntity_def split: option.splits PxTransform.splits)
  have static: "entities s' e = Some ent" if e: "entities s e = Some ent" "ekind ent = IsStatic" for e ent
  proof (cases "\<exists>h a. body ent = Some h \<and> actors s h = Some a \<and> h \<in> set ?D \<and> userData a = Some e")
    case True
    then obtain h a where h: "h \<in> set ?D" "actors s h = Some a" "userData a = Some e" by blast
    from ok [OF h(1)] h e have False by (auto simp: backrefOk_iff)
    then show ?thesis ..
  next
    case False
    with e show ?thesis
      by (auto simp: ents syncEntity_def split: option.splits)
  qed
  have untouched: "entities s' e = entities s e"
    if "\<forall>h \<in> set ?D. \<forall>a. actors s h = Some a \<longrightarrow> userData a \<noteq> Some e" for e
    using that by (auto simp: ents syncEntity_def split: option.splits)
  from written frame kept static untouched show ?thesis
    by blast
qed

lemma backrefOk_run: "list_all (backrefOk movedScene) (dynamicActors movedScene)"
  by (simp add: backrefOk_def dynamicActors_def getActors_def isDynamicActor_def movedScene_def
      twoBoxes_def sessionUp_def)

theorem updateStates_writes_poses_witness:
  "updateStates movedScene = Inr movedSceneSynced \<and>
   list_all (backrefOk movedScene) (dynamicActors movedScene) \<and>
   dynamicActors movedScene = [7, 8] \<and>
   (\<exists>a e ent'. actors movedScene 7 = Some a \<and> userData a = Some e \<and>
       entities movedSceneSynced e = Some ent' \<and> synced a ent') \<and>
   (\<exists>a e ent'. actors movedScene 8 = Some a \<and> userData a = Some e \<and>
       entities movedSceneSynced e = Some ent' \<and> synced a ent') \<and>
   movedSceneSynced\<lparr>entities := entities movedScene\<rparr> = movedScene \<and>
   entities movedScene 2 =
     Some \<lparr> position = vec3 0 0 0, rotation = quat 0 0 0 1, scale = vec3 180 1 180,
            ekind = IsStatic, body = Some 9 \<rparr> \<and>
   entities movedSceneSynced 2 = entities movedScene 2"
proof -
  have D: "dynamicActors movedScene = [7, 8]"
    by (simp add: dynamicActors_def getActors_def isDynamicActor_def movedScene_def
      twoBoxes_def sessionUp_def)
  have g: "entities movedScene 2 =
     Some \<lparr> position = vec3 0 0 0, rotation = quat 0 0 0 1, scale = vec3 180 1 180,
            ekind = IsStatic, body = Some 9 \<rparr>"
    by (simp add: movedScene_def)
  note w = updateStates_writes_poses [OF updateStates_run backrefOk_run]
  from w have a7: "\<exists>a e ent'. actors movedScene 7 = Some a \<and> userData a = Some e \<and>
       entities movedSceneSynced e = Some ent' \<and> synced a ent'"
    unfolding D by simp
  from w have a8: "\<exists>a e ent'. actors movedScene 8 = Some a \<and> userData a = Some e \<and>
       entities movedSceneSynced e = Some ent' \<and> synced a ent'"
    unfolding D by simp
  from w have fr: "movedSceneSynced\<lparr>entities := entities movedScene\<rparr> = movedScene"
    by blast
  from w g have st: "entities movedSceneSynced 2 = entities movedScene 2"
    by simp
  from updateStates_run backrefOk_run D a7 a8 fr g st show ?thesis
    by blast
qed

section \<open>The scene of \<^verbatim>\<open>main\<close>\<close>

lemma createRigid_ok:
  assumes "gPhysics s = Some ph" "ph \<in> live s" "succeeds eng (if dyn then KRigidDynamic else KRigidStatic)"
  shows "createRigid eng dyn pose s = Inr (Some (fresh s),
     s\<lparr>live := insert (fresh s) (live s), fresh := fresh s + 1,
        actors := (actors s)(fresh s \<mapsto> \<lparr> dynamic = dyn, globalPose = pose, shapes = [],
           userData = None, mass = 0 \<rparr>)\<rparr>)"
  using assms by (simp add: createRigid_def deref_def create_def)

lemma createShape_ok:
  assumes "h \<in> live s" "actors s h = Some a" "gPhysicsMaterial s = Some m" "m \<in> live s"
  shows "createShape (Some h) s =
     Inr (s\<lparr>actors := (actors s)(h \<mapsto> a\<lparr>shapes := shapes a @ [PxFilterData 0 0 0 0]\<rparr>)\<rparr>)"
  using assms by (simp add: createShape_def derefActor_def deref_def)

lemma addActor_ok:
  assumes "gPhysicsScene s = Some sc" "sc \<in> live s" "scenes s sc = Some d" "h \<in> live s" "actors s h = Some a"
  shows "addActor (Some h) s =
     Inr (s\<lparr>scenes := (scenes s)(sc \<mapsto> d\<lparr>sceneActors := sceneActors d @ [h]\<rparr>)\<rparr>)"
  using assms by (simp add: addActor_def derefActor_def deref_def)

lemma initGround_ok:
  assumes "gPhysics s = Some ph" "ph \<in> live s" "succeeds eng KRigidStatic"
    "gPhysicsMaterial s = Some m" "m \<in> live s"
    "gPhysicsScene s = Some sc" "sc \<in> live s" "scenes s sc = Some d"
  shows "initGround eng halfsize pos s = Inr (freshEntity s,
     s\<lparr>live := insert (fresh s) (live s), fresh := fresh s + 1,
        actors := (actors s)(fresh s \<mapsto> \<lparr> dynamic = False, globalPose = PxTransform (toPxVec3 pos) PxIdentity,
           shapes = [PxFilterData 0 0 0 0], userData = None, mass = 0 \<rparr>),
        scenes := (scenes s)(sc \<mapsto> d\<lparr>sceneActors := sceneActors d @ [fresh s]\<rparr>),
        entities := (entities s)(freshEntity s \<mapsto> \<lparr> position = pos, rotation = quat 0 0 0 1,
           scale = vscale halfsize 2, ekind = IsStatic, body = Some (fresh s) \<rparr>),
        freshEntity := freshEntity s + 1\<rparr>)"
  using assms
  by (simp add: initGround_def newEntity_def Let_def createRigid_ok setBody_def createShape_ok addActor_ok)
     (auto simp: fun_eq_iff)


lemma addEntityBox_ok:
  assumes "gPhysics s = Some ph" "ph \<in> live s" "succeeds eng KRigidDynamic"
    "gPhysicsMaterial s = Some m" "m \<in> live s"
    "gPhysicsScene s = Some sc" "sc \<in> live s" "scenes s sc = Some d"
  shows "addEntityBox eng ms halfsize pos s = Inr (freshEntity s,
     s\<lparr>live := insert (fresh s) (live s), fresh := fresh s + 1,
        actors := (actors s)(fresh s \<mapsto> \<lparr> dynamic = True, globalPose = PxTransform (toPxVec3 pos) PxIdentity,
           shapes = [PxFilterData 0 0 0 0], userData = Some (freshEntity s), mass = ms \<rparr>),
        scenes := (scenes s)(sc \<mapsto> d\<lparr>sceneActors := sceneActors d @ [fresh s]\<rparr>),
        entities := (entities s)(freshEntity s \<mapsto> \<lparr> position = pos, rotation = quat 0 0 0 1,
           scale = vscale halfsize 2, ekind = IsDynamic, body = Some (fresh s) \<rparr>),
        freshEntity := freshEntity s + 1\<rparr>)"
  using assms
  by (cases halfsize)
     (simp add: addEntityBox_def newEntity_def Let_def createRigid_ok setBody_def createShape_ok
        addActor_ok derefActor_def deref_def, auto simp: fun_eq_iff)

lemmas joint_eval = addFixedJoint_def getGlobalPose_def setGlobalPose_def PxFixedJointCreate_def
      setCollisionEnabled_def derefEntity_def derefActor_def
      deref_def Let_def create_def say_def refilterBodies_def refilter_def PxIdentity_def

lemma setupScene_run: "setupScene plainEngine sessionUp = Inr ((0, 3, 2, 1), mainScene)"
proof -
  let ?g = "sessionUp \<lparr> live := {0, 1, 2, 3, 4, 5, 6, 7}, fresh := 8,
     actors := [7 \<mapsto> \<lparr> dynamic = False, globalPose = PxTransform (PxVec3 0 0 0) PxIdentity,
                        shapes = [PxFilterData 0 0 0 0], userData = None, mass = 0 \<rparr>],
     scenes := [6 \<mapsto> \<lparr> gravity = PxVec3 0 (- (981 / 100)) 0, cpuDispatcher = Some 3,
                        sceneActors = [7] \<rparr>],
     entities := [0 \<mapsto> \<lparr> position = vec3 0 0 0, rotation = quat 0 0 0 1, scale = vec3 180 1 180,
                          ekind = IsStatic, body = Some 7 \<rparr>],
     freshEntity := 1 \<rparr>"
  let ?c = "?g \<lparr> live := {0, 1, 2, 3, 4, 5, 6, 7, 8}, fresh := 9,
     actors := (actors ?g)(8 \<mapsto> \<lparr> dynamic = True, globalPose = PxTransform (PxVec3 0 2 0) PxIdentity,
                        shapes = [PxFilterData 0 0 0 0], userData = Some 1, mass = 1000 \<rparr>),
     scenes := [6 \<mapsto> \<lparr> gravity = PxVec3 0 (- (981 / 100)) 0, cpuDispatcher = Some 3,
                        sceneActors = [7, 8] \<rparr>],
     entities := (entities ?g)(1 \<mapsto> \<lparr> position = vec3 0 2 0, rotation = quat 0 0 0 1, scale = vec3 16 (1 / 2) 3,
                          ekind = IsDynamic, body = Some 8 \<rparr>),
     freshEntity := 2 \<rparr>"
  let ?b = "?c \<lparr> live := {0, 1, 2, 3, 4, 5, 6, 7, 8, 9}, fresh := 10,
     actors := (actors ?c)(9 \<mapsto> \<lparr> dynamic = True, globalPose = PxTransform (PxVec3 0 4 0) PxIdentity,
                        shapes = [PxFilterData 0 0 0 0], userData = Some 2, mass = 1000 \<rparr>),
     scenes := [6 \<mapsto> \<lparr> gravity = PxVec3 0 (- (981 / 100)) 0, cpuDispatcher = Some 3,
                        sceneActors = [7, 8, 9] \<rparr>],
     entities := (entities ?c)(2 \<mapsto> \<lparr> position = vec3 0 4 0, rotation = quat 0 0 0 1, scale = vec3 16 (1 / 2) 3,
                          ekind = IsDynamic, body = Some 9 \<rparr>),
     freshEntity := 3 \<rparr>"
  let ?j = "?b \<lparr> live := {0, 1, 2, 3, 4, 5, 6, 7, 8, 9, 10}, fresh := 11,
     joints := [10 \<mapsto> FixedJoint (Some 9) (PxTransform (PxVec3 0 (- 1) 0) PxIdentity)
                        (Some 8) (PxTransform (PxVec3 0 1 0) PxIdentity) False],
     trace := [JointCreate (Some 9) (Some 8)] \<rparr>"
  have ok: "succeeds plainEngine k" for k by (simp add: plainEngine_def)
  have 1: "initGround plainEngine (vec3 90 (1 / 2) 90) (vec3 0 0 0) sessionUp = Inr (0, ?g)"
    by (subst initGround_ok [where ph = 2 and m = 5 and sc = 6])
       (auto simp: sessionUp_def ok PxIdentity_def)
  have 2: "addEntityBox plainEngine 1000 (vec3 8 (1 / 4) (3 / 2)) (vec3 0 2 0) ?g = Inr (1, ?c)"
    by (subst addEntityBox_ok [where ph = 2 and m = 5 and sc = 6])
       (auto simp: sessionUp_def ok PxIdentity_def)
  have 3: "addEntityBox plainEngine 1000 (vec3 8 (1 / 4) (3 / 2)) (vec3 0 4 0) ?c = Inr (2, ?b)"
    by (subst addEntityBox_ok [where ph = 2 and m = 5 and sc = 6])
       (auto simp: sessionUp_def ok PxIdentity_def)
  have 4: "addFixedJoint plainEngine 1 (vec3 0 1 0) 2 (vec3 0 (- 1) 0) False ?b = Inr ?j"
    by (simp add: joint_eval sessionUp_def plainEngine_def) (auto simp: fun_eq_iff refilter_def)
  have 5: "addEntityBox plainEngine 50 (vec3 (1 / 2) (1 / 2) (1 / 2)) (vec3 0 5 0) ?j = Inr (3, mainScene)"
    by (subst addEntityBox_ok [where ph = 2 and m = 5 and sc = 6])
       (auto simp: sessionUp_def ok PxIdentity_def mainScene_def)
  show ?thesis
    unfolding setupScene_def by (simp only: 1 2 3 4 5 andThen_simps prod.case)
qed

text \<open>
  The back-references are in order in the scene that \<^verbatim>\<open>main\<close> builds, and
  \<^verbatim>\<open>addEntityBox\<close>, called in a session that is up and with an engine that hands out
  unused handles, returns an entity whose new body points back to it and leaves the
  back-references of the other actors in order.
\<close>

lemma backrefOk_mainScene: "list_all (backrefOk mainScene) (dynamicActors mainScene)"
  by (simp add: backrefOk_def dynamicActors_def getActors_def isDynamicActor_def mainScene_def
      sessionUp_def)

lemma addEntityBox_backrefOk:
  assumes "gPhysics s = Some ph" "ph \<in> live s" "succeeds eng KRigidDynamic"
    "gPhysicsMaterial s = Some m" "m \<in> live s"
    "gPhysicsScene s = Some sc" "sc \<in> live s" "scenes s sc = Some d"
    and fresh: "actors s (fresh s) = None" "entities s (freshEntity s) = None"
  shows "\<exists>s'. addEntityBox eng ms halfsize pos s = Inr (freshEntity s, s') \<and>
     bodyOf s' (freshEntity s) = Some (fresh s) \<and> backrefOk s' (fresh s) \<and>
     (\<forall>h. backrefOk s h \<longrightarrow> backrefOk s' h)"
proof -
  let ?s' = "s\<lparr>live := insert (fresh s) (live s), fresh := fresh s + 1,
        actors := (actors s)(fresh s \<mapsto> \<lparr> dynamic = True, globalPose = PxTransform (toPxVec3 pos) PxIdentity,
           shapes = [PxFilterData 0 0 0 0], userData = Some (freshEntity s), mass = ms \<rparr>),
        scenes := (scenes s)(sc \<mapsto> d\<lparr>sceneActors := sceneActors d @ [fresh s]\<rparr>),
        entities := (entities s)(freshEntity s \<mapsto> \<lparr> position = pos, rotation = quat 0 0 0 1,
           scale = vscale halfsize 2, ekind = IsDynamic, body = Some (fresh s) \<rparr>),
        freshEntity := freshEntity s + 1\<rparr>"
  have run: "addEntityBox eng ms halfsize pos s = Inr (freshEntity s, ?s')"
    by (rule addEntityBox_ok [OF assms(1-8)])
  have new: "bodyOf ?s' (freshEntity s) = Some (fresh s)" "backrefOk ?s' (fresh s)"
    by (simp_all add: bodyOf_def backrefOk_iff)
  have old: "backrefOk ?s' h" if "backrefOk s h" for h
  proof -
    from that obtain a e ent where
      f: "actors s h = Some a" "userData a = Some e" "entities s e = Some ent"
         "ekind ent = IsDynamic" "body ent = Some h"
      by (auto simp: backrefOk_iff)
    with fresh have "h \<noteq> fresh s" "e \<noteq> freshEntity s" by auto
    with f show ?thesis by (simp add: backrefOk_iff)
  qed
  from run new old show ?thesis by blast
qed

section \<open>The loop\<close>

lemma jointCreations_simps [simp]:
  "jointCreations [] = 0"
  "jointCreations (xs @ ys) = jointCreations xs + jointCreations ys"
  "jointCreations (e # xs) = (if isJointCreate e then 1 else 0) + jointCreations xs"
  by (simp_all add: jointCreations_def)

lemma jointCreations_displayLines [simp]: "jointCreations (displayLines fd) = 0"
proof -
  have "\<not> isJointCreate (filterDataLine x)" for x by (cases x) simp
  then show ?thesis by (simp add: displayLines_def jointCreations_def)
qed

lemma debugDisplayFilterData_Inr:
  assumes "debugDisplayFilterData e s = Inr s'"
  shows "\<exists>fd. getFilterData e s = Inr fd \<and> s' = s\<lparr>trace := trace s @ displayLines fd\<rparr>"
  using assms
  by (auto simp: debugDisplayFilterData_def getFilterData_def andThen_Inr displayLines_def)

lemma deref_trace [simp]: "deref (s\<lparr>trace := tr\<rparr>) ptr = deref s ptr"
  by (simp add: deref_def split: option.splits)

lemma derefActor_trace [simp]: "derefActor (s\<lparr>trace := tr\<rparr>) ptr = derefActor s ptr"
  by (simp add: derefActor_def)

lemma derefEntity_trace [simp]: "derefEntity (s\<lparr>trace := tr\<rparr>) e = derefEntity s e"
  by (simp add: derefEntity_def)

lemma getFilterData_trace [simp]: "getFilterData e (s\<lparr>trace := tr\<rparr>) = getFilterData e s"
  by (simp add: getFilterData_def)

lemma bodyOf_trace [simp]: "bodyOf (s\<lparr>trace := tr\<rparr>) e = bodyOf s e"
  by (simp add: bodyOf_def)

lemma jointTrigger_idle: "\<not> (\<not> cj \<and> t > 3) \<Longrightarrow> jointTrigger eng A B t cj s = Inr (cj, s)"
  by (auto simp: jointTrigger_def)

lemma jointTrigger_fires:
  assumes "jointTrigger eng A B t False s = Inr (cj, s')" and "t > 3"
  shows "cj \<and> (\<exists>fdA fdB fdA' fdB' hA hB.
      getFilterData A s = Inr fdA \<and> getFilterData B s = Inr fdB \<and>
      getFilterData A s' = Inr fdA' \<and> getFilterData B s' = Inr fdB' \<and>
      bodyOf s A = Some hA \<and> bodyOf s B = Some hB \<and>
      trace s' = trace s @ displayLines fdA @ displayLines fdB @ [JointCreate (Some hB) (Some hA)]
                   @ displayLines fdA' @ displayLines fdB')"
proof -
  from assms obtain s1 s2 s3 s4 s5 where
    d1: "debugDisplayFilterData A s = Inr s1" and d2: "debugDisplayFilterData B s1 = Inr s2" and
    j: "addFixedJoint eng A (vec3 0 0 0) B (vec3 0 0 0) False s2 = Inr s3" and
    d3: "debugDisplayFilterData A s3 = Inr s4" and d4: "debugDisplayFilterData B s4 = Inr s5" and
    r: "cj = True" "s' = s5"
    by (auto simp: jointTrigger_def andThen_Inr)
  from debugDisplayFilterData_Inr [OF d1] obtain fdA where
    a: "getFilterData A s = Inr fdA" "s1 = s\<lparr>trace := trace s @ displayLines fdA\<rparr>" by blast
  from debugDisplayFilterData_Inr [OF d2] a obtain fdB where
    b: "getFilterData B s = Inr fdB" "s2 = s1\<lparr>trace := trace s1 @ displayLines fdB\<rparr>" by auto
  from addFixedJoint_Inr [OF j] obtain entA hA entB hB where
    e: "entities s2 A = Some entA" "body entA = Some hA" "entities s2 B = Some entB" "body entB = Some hB"
      "trace s3 = trace s2 @ [JointCreate (Some hB) (Some hA)]"
    by blast
  from debugDisplayFilterData_Inr [OF d3] obtain fdA' where
    a': "getFilterData A s3 = Inr fdA'" "s4 = s3\<lparr>trace := trace s3 @ displayLines fdA'\<rparr>" by blast
  from debugDisplayFilterData_Inr [OF d4] a' obtain fdB' where
    b': "getFilterData B s3 = Inr fdB'" "s5 = s4\<lparr>trace := trace s4 @ displayLines fdB'\<rparr>" by auto
  have "bodyOf s A = Some hA" "bodyOf s B = Some hB"
    using e a b by (simp_all add: bodyOf_def)
  moreover have "getFilterData A s' = Inr fdA'" "getFilterData B s' = Inr fdB'"
    using a' b' r by simp_all
  moreover have "trace s' = trace s @ displayLines fdA @ displayLines fdB @ [JointCreate (Some hB) (Some hA)]
                   @ displayLines fdA' @ displayLines fdB'"
    using a b e a' b' r by simp
  ultimately show ?thesis using a b r by blast
qed

lemma updateStates_trace: "updateStates s = Inr s' \<Longrightarrow> trace s' = trace s"
proof -
  assume "updateStates s = Inr s'"
  from updateStates_loop_frame [OF updateStates_as_loop [OF this]]
  have "trace (s'\<lparr>entities := entities s\<rparr>) = trace s" by simp
  then show ?thesis by simp
qed

lemma drawBox_trace:
  "drawBox e c s = Inr s' \<Longrightarrow> \<exists>d. \<not> isJointCreate d \<and> trace s' = trace s @ [d]"
  by (auto simp: drawBox_def andThen_Inr derefEntity_Inr say_def)

lemma stepAndDraw_trace:
  assumes "stepAndDraw eng ground A B C s = Inr s'"
  shows "\<exists>d1 d2 d3 d4. \<not> isJointCreate d1 \<and> \<not> isJointCreate d2 \<and> \<not> isJointCreate d3 \<and> \<not> isJointCreate d4 \<and>
     trace s' = trace s @ [Simulate (1 / 60), FetchResults, Clear, d1, d2, d3, d4, Refresh, Usleep 1000]"
proof -
  from assms obtain s1 s2 s3 s4 s5 s6 where
    sim: "simulateAndFetch eng s = Inr s1" and up: "updateStates s1 = Inr s2" and
    b1: "drawBox ground (Color (2 / 10) (2 / 10) 1) (say Clear s2) = Inr s3" and
    b2: "drawBox A (Color (2 / 10) 1 (2 / 10)) s3 = Inr s4" and
    b3: "drawBox B (Color 1 (2 / 10) (2 / 10)) s4 = Inr s5" and
    b4: "drawBox C (Color 1 (2 / 10) (2 / 10)) s5 = Inr s6" and
    fin: "s' = say (Usleep 1000) (say Refresh s6)"
    by (auto simp: stepAndDraw_def andThen_Inr)
  from sim have t1: "trace s1 = trace s @ [Simulate (1 / 60), FetchResults]"
    by (auto simp: simulateAndFetch_def andThen_Inr say_def Let_def)
  note t2 = updateStates_trace [OF up]
  from drawBox_trace [OF b1] obtain d1 where
    t3: "\<not> isJointCreate d1" "trace s3 = trace s2 @ [Clear, d1]"
    by (auto simp: say_def)
  from drawBox_trace [OF b2] obtain d2 where
    t4: "\<not> isJointCreate d2" "trace s4 = trace s3 @ [d2]" by blast
  from drawBox_trace [OF b3] obtain d3 where
    t5: "\<not> isJointCreate d3" "trace s5 = trace s4 @ [d3]" by blast
  from drawBox_trace [OF b4] obtain d4 where
    t6: "\<not> isJointCreate d4" "trace s6 = trace s5 @ [d4]" by blast
  have "trace s' = trace s6 @ [Refresh, Usleep 1000]"
    by (simp add: fin say_def)
  with t1 t2 t3 t4 t5 t6 show ?thesis
    by simp
qed

lemma stepAndDraw_jointCreations:
  "stepAndDraw eng ground A B C s = Inr s' \<Longrightarrow> jointCreations (trace s') = jointCreations (trace s)"
  by (drule stepAndDraw_trace) auto


lemma mainLoop_Cons:
  assumes "mainLoop eng ground A B C ((ev, t) # turns) cj s = Inr (q, s')" and "\<not> quitRequested ev"
  shows "\<exists>cj1 s1 s2. jointTrigger eng A B t cj s = Inr (cj1, s1) \<and>
     stepAndDraw eng ground A B C s1 = Inr s2 \<and>
     mainLoop eng ground A B C turns cj1 s2 = Inr (q, s')"
  using assms by (auto simp: andThen_Inr)

lemma mainLoop_count:
  "mainLoop eng ground A B C turns cj s = Inr (q, s') \<Longrightarrow>
   jointCreations (trace s') =
     jointCreations (trace s) +
       (if \<not> cj \<and> list_ex (\<lambda>(ev, t). t > 3) (executedTurns turns) then 1 else 0)"
proof (induction turns arbitrary: cj s)
  case Nil
  then show ?case by (simp add: executedTurns_def)
next
  case (Cons turn turns)
  obtain ev t where turn: "turn = (ev, t)" by (cases turn)
  show ?case
  proof (cases "quitRequested ev")
    case True
    with Cons.prems turn show ?thesis by (simp add: executedTurns_def)
  next
    case False
    from mainLoop_Cons [OF Cons.prems [unfolded turn] False] obtain cj1 s1 s2 where
      jt: "jointTrigger eng A B t cj s = Inr (cj1, s1)" and
      sd: "stepAndDraw eng ground A B C s1 = Inr s2" and
      rest: "mainLoop eng ground A B C turns cj1 s2 = Inr (q, s')"
      by blast
    note ih = Cons.IH [OF rest]
    note st = stepAndDraw_jointCreations [OF sd]
    have ex: "executedTurns ((ev, t) # turns) = (ev, t) # executedTurns turns"
      using False by (simp add: executedTurns_def)
    show ?thesis
    proof (cases "\<not> cj \<and> t > 3")
      case True
      with jt have jt': "jointTrigger eng A B t False s = Inr (cj1, s1)" by simp
      from jointTrigger_fires [OF jt'] True have "cj1" "jointCreations (trace s1) = jointCreations (trace s) + 1"
        by auto
      with ih st True show ?thesis by (simp add: ex turn)
    next
      case False
      with jt have "cj1 = cj" "s1 = s" by (simp_all add: jointTrigger_idle)
      with ih st False show ?thesis by (auto simp: ex turn)
    qed
  qed
qed

lemma mainLoop_prefix:
  assumes "mainLoop eng ground A B C (pre @ (ev, t) # post) False s = Inr (q, s')"
    and "list_all (\<lambda>(e, u). \<not> quitRequested e \<and> \<not> u > 3) pre"
    and "\<not> quitRequested ev"
  shows "\<exists>s0 cj1 s1. mainLoop eng ground A B C pre False s = Inr (False, s0) \<and>
     jointTrigger eng A B t False s0 = Inr (cj1, s1)"
  using assms
proof (induction pre arbitrary: s)
  case Nil
  from mainLoop_Cons [OF Nil(1) [unfolded append_Nil] Nil(3)] show ?case by auto
next
  case (Cons turn pre)
  obtain e u where turn: "turn = (e, u)" by (cases turn)
  from Cons.prems(2) turn have nq: "\<not> quitRequested e" and nu: "\<not> u > 3" and
    restok: "list_all (\<lambda>(e, u). \<not> quitRequested e \<and> \<not> u > 3) pre"
    by simp_all
  from Cons.prems(1) have run: "mainLoop eng ground A B C ((e, u) # pre @ (ev, t) # post) False s = Inr (q, s')"
    by (simp add: turn)
  from mainLoop_Cons [OF run nq] obtain cj1 s1 s2 where
    jt: "jointTrigger eng A B u False s = Inr (cj1, s1)" and
    sd: "stepAndDraw eng ground A B C s1 = Inr s2" and
    rest: "mainLoop eng ground A B C (pre @ (ev, t) # post) cj1 s2 = Inr (q, s')"
    by blast
  from jt nu have idle: "cj1 = False" "s1 = s" by (simp_all add: jointTrigger_idle)
  from Cons.IH [OF rest [unfolded idle] restok Cons.prems(3)] obtain s0 cj2 s3 where
    "mainLoop eng ground A B C pre False s2 = Inr (False, s0)"
    "jointTrigger eng A B t False s0 = Inr (cj2, s3)" by blast
  with jt sd idle nq show ?case
    by (auto simp: turn)
qed

lemmas loop_eval = jointTrigger_def stepAndDraw_def simulateAndFetch_def updateStates_def
  getActors_def isDynamicActor_def drawBox_def addFixedJoint_def getGlobalPose_def
  setGlobalPose_def PxFixedJointCreate_def setCollisionEnabled_def derefEntity_def
  derefActor_def deref_def Let_def create_def say_def refilterBodies_def refilter_def
  PxIdentity_def plainEngine_def debugDisplayFilterData_def quitRequested_def

lemma stepAndDraw_run: "stepAndDraw plainEngine 0 3 2 1 mainScene = Inr afterOneTurn"
  by (simp add: loop_eval mainScene_def afterOneTurn_def sessionUp_def)

lemma mainLoop_one_turn: "mainLoop plainEngine 0 3 2 1 [(SDL_OTHER, 1)] False mainScene = Inr (False, afterOneTurn)"
  using stepAndDraw_run by (simp add: jointTrigger_def quitRequested_def)

lemma mainLoop_quit_early:
  "mainLoop plainEngine 0 3 2 1 [(SDL_OTHER, 1), (SDL_QUIT, 2)] False mainScene = Inr (True, afterOneTurn)"
  using stepAndDraw_run by (simp add: jointTrigger_def quitRequested_def)

lemma deinitPhysics_shutdown: "deinitPhysics (say GraphicsDeinit afterOneTurn) = Inr (afterShutdown\<lparr>trace := trace afterOneTurn @ [GraphicsDeinit]\<rparr>)"
  by (simp add: deinitPhysics_def Let_def deref_def release_def say_def afterOneTurn_def afterShutdown_def
      mainScene_def sessionUp_def) auto

lemma main_quit_early:
  "main plainEngine True True [(SDL_OTHER, 1), (SDL_QUIT, 2)] = Exit 0 afterShutdown"
proof -
  have i: "initPhysics (succeeds plainEngine) initial_world = Inr (True, sessionUp)"
    using initPhysics_run by (simp add: plainEngine_def)
  have l: "mainLoop plainEngine 0 3 2 (Suc 0) [(SDL_OTHER, 1), (SDL_QUIT, 2)] False mainScene = Inr (True, afterOneTurn)"
    using mainLoop_quit_early by (simp only: One_nat_def)
  have "main_from plainEngine True True [(SDL_OTHER, 1), (SDL_QUIT, 2)] initial_world =
      Exit 0 (say SDLQuit (afterShutdown\<lparr>trace := trace afterOneTurn @ [GraphicsDeinit]\<rparr>))"
    unfolding main_from_def
    by (simp only: i setupScene_run l deinitPhysics_shutdown sum.case prod.case bool.case
        if_False not_True_eq_False One_nat_def)
  then show ?thesis
    by (simp add: main_def say_def afterShutdown_def)
qed

lemma mainLoop_fires_run:
  "\<exists>s'. mainLoop plainEngine 0 3 2 1 [(SDL_OTHER, 1), (SDL_OTHER, 4), (SDL_OTHER, 5), (SDL_QUIT, 6)] False mainScene = Inr (True, s')"
  by (simp add: loop_eval mainScene_def sessionUp_def)

lemma no_fire_in_prefix:
  assumes "list_all (\<lambda>(e, u). \<not> quitRequested e \<and> \<not> u > 3) pre"
  shows "\<not> list_ex (\<lambda>(ev, t). t > 3) (executedTurns pre)"
proof
  assume "list_ex (\<lambda>(ev, t). t > 3) (executedTurns pre)"
  then obtain ev t where "(ev, t) \<in> set (executedTurns pre)" "t > 3"
    by (auto simp: list_ex_iff)
  then have "(ev, t) \<in> set pre"
    by (auto simp: executedTurns_def dest: set_takeWhileD)
  with assms \<open>t > 3\<close> show False
    by (auto simp: list_all_iff)
qed

text \<open>
  C7, as stated: every execution of the loop creates the joint between A and B exactly
  once. In the run of \<^verbatim>\<open>main\<close> with the plain engine in which the clock reads 1 second
  in the first turn and a quit event arrives in the second, the loop is left with the
  only joint in the trace being the one between B (body 9) and C (body 8) made before
  the loop: no joint between A (body 11) and B is ever created.
\<close>

theorem mainLoop_joint_counterexample:
  "mainLoop plainEngine 0 3 2 1 [(SDL_OTHER, 1), (SDL_QUIT, 2)] False mainScene = Inr (True, afterOneTurn) \<and>
   filter isJointCreate (trace mainScene) = [JointCreate (Some 9) (Some 8)] \<and>
   filter isJointCreate (trace afterOneTurn) = [JointCreate (Some 9) (Some 8)] \<and>
   bodyOf mainScene 3 = Some 11 \<and> bodyOf mainScene 2 = Some 9"
proof -
  have "filter isJointCreate (trace mainScene) = [JointCreate (Some 9) (Some 8)]"
    by (simp add: mainScene_def)
  moreover have "filter isJointCreate (trace afterOneTurn) = [JointCreate (Some 9) (Some 8)]"
    by (simp add: afterOneTurn_def)
  moreover have "bodyOf mainScene 3 = Some 11" "bodyOf mainScene 2 = Some 9"
    by (simp_all add: bodyOf_def mainScene_def)
  ultimately show ?thesis
    using mainLoop_quit_early by simp
qed

text \<open>
  C7, amended. In a run of the loop that starts with \<^verbatim>\<open>createJoint = false\<close>, the number
  of joints created is one if the body of the loop runs in some turn whose clock reading
  is above 3 seconds, and zero otherwise (the loop was left before). When there is such
  a turn, the first one starts from the world that the turns before it have reached
  without creating a joint, and in that turn the trigger prints the filter data of A
  and of B, creates the joint between the bodies of B and A, and prints the filter data
  of A and of B again, with nothing in between. By the count, no later turn creates a
  joint.
\<close>

theorem mainLoop_joint_once:
  assumes "mainLoop eng ground A B C turns False s = Inr (q, s')"
  shows "jointCreations (trace s') =
           jointCreations (trace s) +
             (if list_ex (\<lambda>(ev, t). t > 3) (executedTurns turns) then 1 else 0) \<and>
         (\<forall>pre ev t post.
            turns = pre @ (ev, t) # post \<and>
            list_all (\<lambda>(e, u). \<not> quitRequested e \<and> \<not> u > 3) pre \<and>
            \<not> quitRequested ev \<and> t > 3 \<longrightarrow>
            (\<exists>s0 s1 fdA fdB fdA' fdB' hA hB.
               mainLoop eng ground A B C pre False s = Inr (False, s0) \<and>
               jointCreations (trace s0) = jointCreations (trace s) \<and>
               jointTrigger eng A B t False s0 = Inr (True, s1) \<and>
               getFilterData A s0 = Inr fdA \<and> getFilterData B s0 = Inr fdB \<and>
               getFilterData A s1 = Inr fdA' \<and> getFilterData B s1 = Inr fdB' \<and>
               bodyOf s0 A = Some hA \<and> bodyOf s0 B = Some hB \<and>
               trace s1 = trace s0 @ displayLines fdA @ displayLines fdB
                            @ [JointCreate (Some hB) (Some hA)]
                            @ displayLines fdA' @ displayLines fdB'))"
proof (intro conjI allI impI)
  show "jointCreations (trace s') =
           jointCreations (trace s) +
             (if list_ex (\<lambda>(ev, t). t > 3) (executedTurns turns) then 1 else 0)"
    using mainLoop_count [OF assms] by simp
next
  fix pre ev t post
  assume h: "turns = pre @ (ev, t) # post \<and>
            list_all (\<lambda>(e, u). \<not> quitRequested e \<and> \<not> u > 3) pre \<and>
            \<not> quitRequested ev \<and> t > 3"
  then have run: "mainLoop eng ground A B C (pre @ (ev, t) # post) False s = Inr (q, s')"
    using assms by simp
  from mainLoop_prefix [OF run] h obtain s0 cj1 s1 where
    p: "mainLoop eng ground A B C pre False s = Inr (False, s0)" and
    j: "jointTrigger eng A B t False s0 = Inr (cj1, s1)"
    by blast
  from mainLoop_count [OF p] no_fire_in_prefix h
  have c: "jointCreations (trace s0) = jointCreations (trace s)"
    by simp
  from jointTrigger_fires [OF j] h have "cj1" and
    "\<exists>fdA fdB fdA' fdB' hA hB.
      getFilterData A s0 = Inr fdA \<and> getFilterData B s0 = Inr fdB \<and>
      getFilterData A s1 = Inr fdA' \<and> getFilterData B s1 = Inr fdB' \<and>
      bodyOf s0 A = Some hA \<and> bodyOf s0 B = Some hB \<and>
      trace s1 = trace s0 @ displayLines fdA @ displayLines fdB @ [JointCreate (Some hB) (Some hA)]
                   @ displayLines fdA' @ displayLines fdB'"
    by simp_all
  with p c j show "\<exists>s0 s1 fdA fdB fdA' fdB' hA hB.
               mainLoop eng ground A B C pre False s = Inr (False, s0) \<and>
               jointCreations (trace s0) = jointCreations (trace s) \<and>
               jointTrigger eng A B t False s0 = Inr (True, s1) \<and>
               getFilterData A s0 = Inr fdA \<and> getFilterData B s0 = Inr fdB \<and>
               getFilterData A s1 = Inr fdA' \<and> getFilterData B s1 = Inr fdB' \<and>
               bodyOf s0 A = Some hA \<and> bodyOf s0 B = Some hB \<and>
               trace s1 = trace s0 @ displayLines fdA @ displayLines fdB
                            @ [JointCreate (Some hB) (Some hA)]
                            @ displayLines fdA' @ displayLines fdB'"
    by (auto simp del: append_assoc)
qed

theorem mainLoop_joint_once_witness:
  "\<exists>s'. mainLoop plainEngine 0 3 2 1
          [(SDL_OTHER, 1), (SDL_OTHER, 4), (SDL_OTHER, 5), (SDL_QUIT, 6)] False mainScene = Inr (True, s') \<and>
        jointCreations (trace s') = jointCreations (trace mainScene) + 1 \<and>
        mainLoop plainEngine 0 3 2 1 [(SDL_OTHER, 1)] False mainScene = Inr (False, afterOneTurn) \<and>
        (\<exists>s1 fdA' fdB'.
           jointTrigger plainEngine 3 2 4 False afterOneTurn = Inr (True, s1) \<and>
           trace s1 = trace afterOneTurn @ displayLines [PxFilterData 0 0 0 0]
                        @ displayLines [PxFilterData 0 0 0 0] @ [JointCreate (Some 9) (Some 11)]
                        @ displayLines fdA' @ displayLines fdB')"
proof -
  let ?turns = "[(SDL_OTHER, 1), (SDL_OTHER, 4), (SDL_OTHER, 5), (SDL_QUIT, 6)]"
  from mainLoop_fires_run obtain s' where
    run: "mainLoop plainEngine 0 3 2 1 ?turns False mainScene = Inr (True, s')" by blast
  note t = mainLoop_joint_once [OF run]
  have ex: "list_ex (\<lambda>(ev, t). t > 3) (executedTurns ?turns)"
    by (simp add: executedTurns_def quitRequested_def)
  from t ex have c: "jointCreations (trace s') = jointCreations (trace mainScene) + 1"
    by simp
  have split: "?turns = [(SDL_OTHER, 1)] @ (SDL_OTHER, 4) # [(SDL_OTHER, 5), (SDL_QUIT, 6)] \<and>
      list_all (\<lambda>(e, u). \<not> quitRequested e \<and> \<not> u > 3) [(SDL_OTHER, 1 :: real)] \<and>
      \<not> quitRequested SDL_OTHER \<and> (4 :: real) > 3"
    by (simp add: quitRequested_def)
  from t [THEN conjunct2, rule_format, OF split] obtain s0 s1 fdA fdB fdA' fdB' hA hB where
    f: "mainLoop plainEngine 0 3 2 1 [(SDL_OTHER, 1)] False mainScene = Inr (False, s0)"
       "jointTrigger plainEngine 3 2 4 False s0 = Inr (True, s1)"
       "getFilterData 3 s0 = Inr fdA" "getFilterData 2 s0 = Inr fdB"
       "bodyOf s0 3 = Some hA" "bodyOf s0 2 = Some hB"
       "trace s1 = trace s0 @ displayLines fdA @ displayLines fdB
                            @ [JointCreate (Some hB) (Some hA)]
                            @ displayLines fdA' @ displayLines fdB'"
    by blast
  from f(1) mainLoop_one_turn have s0: "s0 = afterOneTurn" by simp
  have "getFilterData 3 afterOneTurn = Inr [PxFilterData 0 0 0 0]"
    "getFilterData 2 afterOneTurn = Inr [PxFilterData 0 0 0 0]"
    "bodyOf afterOneTurn 3 = Some 11" "bodyOf afterOneTurn 2 = Some 9"
    by (simp_all add: getFilterData_def bodyOf_def derefEntity_def derefActor_def deref_def
        afterOneTurn_def mainScene_def sessionUp_def)
  with f s0 have "fdA = [PxFilterData 0 0 0 0]" "fdB = [PxFilterData 0 0 0 0]" "hA = 11" "hB = 9"
    by simp_all
  with f s0 run c mainLoop_one_turn show ?thesis
    by blast
qed

section \<open>Exit codes\<close>

lemma mainLoop_quit:
  "mainLoop eng ground A B C turns cj s = Inr (True, s') \<Longrightarrow>
   list_ex (\<lambda>(ev, t). quitRequested ev) turns"
proof (induction turns arbitrary: cj s)
  case Nil
  then show ?case by simp
next
  case (Cons turn turns)
  obtain ev t where turn: "turn = (ev, t)" by (cases turn)
  show ?case
  proof (cases "quitRequested ev")
    case True
    then show ?thesis by (simp add: turn)
  next
    case False
    from mainLoop_Cons [OF Cons.prems [unfolded turn] False] Cons.IH show ?thesis
      by auto
  qed
qed

lemma initPhysics_fresh:
  "gFoundation s = None \<Longrightarrow> initPhysics ok1 s = Inr (r, s') \<Longrightarrow> r"
  by (auto simp: initPhysics_def Let_def andThen_Inr split: prod.splits)

lemma initPhysics_again: "gFoundation s \<noteq> None \<Longrightarrow> initPhysics ok1 s = Inr (False, s)"
  by (simp add: initPhysics_def)

text \<open>
  C9. Whatever the engine, the turns and the globals \<^verbatim>\<open>main\<close> starts from: \<^verbatim>\<open>main\<close> exits
  with code 1 exactly when \<^verbatim>\<open>SDL_Init\<close> or \<^verbatim>\<open>graphics.init\<close> fails; every other exit has
  code 0; when both succeed and the session is already initialised, \<^verbatim>\<open>main\<close> exits with
  code 0 at once, the world untouched and the loop never entered; and when both
  succeed and the session was not initialised, \<^verbatim>\<open>main\<close> exits only after a quit event.
\<close>

theorem main_exit_codes:
  "((\<exists>w. main_from eng sdlInitOk graphicsInitOk turns s = Exit 1 w) \<longleftrightarrow>
      \<not> sdlInitOk \<or> \<not> graphicsInitOk) \<and>
   (\<forall>c w. main_from eng sdlInitOk graphicsInitOk turns s = Exit c w \<longrightarrow>
      c = (if sdlInitOk \<and> graphicsInitOk then 0 else 1)) \<and>
   (sdlInitOk \<and> graphicsInitOk \<and> gFoundation s \<noteq> None \<longrightarrow>
      main_from eng sdlInitOk graphicsInitOk turns s = Exit 0 s) \<and>
   (\<forall>c w. sdlInitOk \<and> graphicsInitOk \<and> gFoundation s = None \<and>
      main_from eng sdlInitOk graphicsInitOk turns s = Exit c w \<longrightarrow>
      list_ex (\<lambda>(ev, t). quitRequested ev) turns)"
proof -
  have codes: "c = (if sdlInitOk \<and> graphicsInitOk then 0 else 1)"
    if "main_from eng sdlInitOk graphicsInitOk turns s = Exit c w" for c w
    using that
    by (auto simp: main_from_def split: if_splits sum.splits prod.splits bool.splits)
  have one: "(\<exists>w. main_from eng sdlInitOk graphicsInitOk turns s = Exit 1 w) \<longleftrightarrow>
      \<not> sdlInitOk \<or> \<not> graphicsInitOk"
  proof
    assume "\<exists>w. main_from eng sdlInitOk graphicsInitOk turns s = Exit 1 w"
    then obtain w where "main_from eng sdlInitOk graphicsInitOk turns s = Exit 1 w" ..
    from codes [OF this] show "\<not> sdlInitOk \<or> \<not> graphicsInitOk"
      by (auto split: if_splits)
  next
    assume "\<not> sdlInitOk \<or> \<not> graphicsInitOk"
    then show "\<exists>w. main_from eng sdlInitOk graphicsInitOk turns s = Exit 1 w"
      by (auto simp: main_from_def)
  qed
  have again: "main_from eng sdlInitOk graphicsInitOk turns s = Exit 0 s"
    if "sdlInitOk \<and> graphicsInitOk \<and> gFoundation s \<noteq> None"
    using that by (simp add: main_from_def initPhysics_again)
  have quit: "list_ex (\<lambda>(ev, t). quitRequested ev) turns"
    if h: "sdlInitOk \<and> graphicsInitOk \<and> gFoundation s = None \<and>
      main_from eng sdlInitOk graphicsInitOk turns s = Exit c w" for c w
  proof -
    from h obtain r s1 where i: "initPhysics (succeeds eng) s = Inr (r, s1)"
      by (cases "initPhysics (succeeds eng) s") (auto simp: main_from_def)
    with h have r: "r" using initPhysics_fresh by blast
    from h i r obtain ground A' B' C' s2 where
      su: "setupScene eng s1 = Inr ((ground, A', B', C'), s2)"
      by (cases "setupScene eng s1") (auto simp: main_from_def)
    from h i r su obtain s3 where "mainLoop eng ground A' B' C' turns False s2 = Inr (True, s3)"
      by (cases "mainLoop eng ground A' B' C' turns False s2")
         (auto simp: main_from_def split: bool.splits)
    then show ?thesis by (rule mainLoop_quit)
  qed
  from one codes again quit show ?thesis by blast
qed

theorem main_exit_codes_witness:
  "main_from plainEngine False True [] initial_world =
     Exit 1 (say (Cerr ''failed to load SDL. (everything)'') initial_world) \<and>
   main_from plainEngine True False [] initial_world = Exit 1 initial_world \<and>
   gFoundation sessionUp = Some 0 \<and>
   main_from plainEngine True True [(SDL_OTHER, 1), (SDL_QUIT, 2)] sessionUp = Exit 0 sessionUp \<and>
   gFoundation initial_world = None \<and>
   main_from plainEngine True True [(SDL_OTHER, 1), (SDL_QUIT, 2)] initial_world = Exit 0 afterShutdown \<and>
   list_ex (\<lambda>(ev, t). quitRequested ev) [(SDL_OTHER, 1 :: real), (SDL_QUIT, 2)]"
proof -
  have a: "main_from plainEngine False True [] initial_world =
     Exit 1 (say (Cerr ''failed to load SDL. (everything)'') initial_world)"
    "main_from plainEngine True False [] initial_world = Exit 1 initial_world"
    by (simp_all add: main_from_def)
  have b: "gFoundation sessionUp = Some 0" "gFoundation initial_world = None"
    by (simp_all add: sessionUp_def initial_world_def)
  have c: "main_from plainEngine True True [(SDL_OTHER, 1), (SDL_QUIT, 2)] initial_world = Exit 0 afterShutdown"
    using main_quit_early by (simp add: main_def)
  from main_exit_codes [of plainEngine True True "[(SDL_OTHER, 1), (SDL_QUIT, 2)]" sessionUp] b
  have d: "main_from plainEngine True True [(SDL_OTHER, 1), (SDL_QUIT, 2)] sessionUp = Exit 0 sessionUp"
    by simp
  from main_exit_codes [of plainEngine True True "[(SDL_OTHER, 1), (SDL_QUIT, 2)]" initial_world] b c
  have e: "list_ex (\<lambda>(ev, t). quitRequested ev) [(SDL_OTHER, 1 :: real), (SDL_QUIT, 2)]"
    by blast
  from a b c d e show ?thesis by blast
qed

end
